theory Spec2Isabelle
  imports Main "HOL-Library.Word"
begin

section \<open>MAVLink telemetry of the flight controller (src/main/telemetry/mavlink.c)\<close>

text \<open>
  A shallow embedding of the stateful core of \<^verbatim>\<open>mavlink.c\<close>: the rate scheduler
  (\<^verbatim>\<open>mavlinkStreamTrigger\<close>, \<^verbatim>\<open>processMAVLinkTelemetry\<close>), the mission transfer handlers
  (\<^verbatim>\<open>handleIncoming_MISSION_*\<close>), the inbound decoder
  (\<^verbatim>\<open>processMAVLinkIncomingTelemetry\<close>) and the orchestrator
  (\<^verbatim>\<open>handleMAVLinkTelemetry\<close>). The file's static variables are the fields of one
  record that every function takes and returns.
\<close>

subsection \<open>Protocol constants and message structs\<close>

text \<open>The six streams that \<^verbatim>\<open>mavRates[]\<close> is initialised for.\<close>

datatype MAV_DATA_STREAM =
    MAV_DATA_STREAM_EXTENDED_STATUS
  | MAV_DATA_STREAM_RC_CHANNELS
  | MAV_DATA_STREAM_POSITION
  | MAV_DATA_STREAM_EXTRA1
  | MAV_DATA_STREAM_EXTRA2
  | MAV_DATA_STREAM_EXTRA3

text \<open>The result codes of a mission ack that the file uses.\<close>

datatype MAV_MISSION_RESULT =
    MAV_MISSION_ACCEPTED
  | MAV_MISSION_ERROR
  | MAV_MISSION_UNSUPPORTED_FRAME
  | MAV_MISSION_UNSUPPORTED
  | MAV_MISSION_NO_SPACE
  | MAV_MISSION_INVALID
  | MAV_MISSION_INVALID_SEQUENCE

text \<open>What \<^verbatim>\<open>mavlink_parse_char\<close> reports for a byte.\<close>

datatype mavlink_framing_t =
    MAVLINK_FRAMING_INCOMPLETE
  | MAVLINK_FRAMING_OK
  | MAVLINK_FRAMING_BAD_CRC

definition TELEMETRY_MAVLINK_MAXRATE :: "8 word" where
  "TELEMETRY_MAVLINK_MAXRATE = 50"

text \<open>
  \<^verbatim>\<open>(1000 * 1000) / TELEMETRY_MAVLINK_MAXRATE\<close> microseconds. Times (\<^verbatim>\<open>timeUs_t\<close>) are
  unsigned 32-bit counters of microseconds; their differences wrap around.
\<close>

definition TELEMETRY_MAVLINK_DELAY :: "32 word" where
  "TELEMETRY_MAVLINK_DELAY = 20000"

text \<open>Frame and command numbers of the MAVLink common message set.\<close>

definition MAV_FRAME_MISSION :: "8 word" where
  "MAV_FRAME_MISSION = 2"

definition MAV_FRAME_GLOBAL_RELATIVE_ALT :: "8 word" where
  "MAV_FRAME_GLOBAL_RELATIVE_ALT = 3"

definition MAV_CMD_NAV_WAYPOINT :: "16 word" where
  "MAV_CMD_NAV_WAYPOINT = 16"

definition MAV_CMD_NAV_RETURN_TO_LAUNCH :: "16 word" where
  "MAV_CMD_NAV_RETURN_TO_LAUNCH = 20"

definition MAV_COMP_ID_SYSTEM_CONTROL :: "8 word" where
  "MAV_COMP_ID_SYSTEM_CONTROL = 250"

text \<open>
  The waypoint of the navigation subsystem (\<^verbatim>\<open>navWaypoint_t\<close>), with the two actions
  and the end-of-list flag that the file names.
\<close>

datatype navWaypointActions_e = NAV_WP_ACTION_WAYPOINT | NAV_WP_ACTION_RTH

definition NAV_WP_FLAG_LAST :: "8 word" where
  "NAV_WP_FLAG_LAST = 0xA5"

record navWaypoint_t =
  action :: navWaypointActions_e
  lat :: "32 word"
  lon :: "32 word"
  alt :: "32 word"
  p1 :: "16 word"
  p2 :: "16 word"
  p3 :: "16 word"
  flag :: "8 word"

text \<open>
  The decoded payload structs. \<^verbatim>\<open>mavlink_mission_clear_all_t\<close> and
  \<^verbatim>\<open>mavlink_mission_request_list_t\<close> hold the target only; the other structs extend
  it. The float fields have the type \<open>'f\<close>: the file only multiplies and divides them
  by constants (see \<open>env\<close> below). The fields \<^verbatim>\<open>x\<close>, \<^verbatim>\<open>y\<close>, \<^verbatim>\<open>z\<close> of the item are
  \<open>item_x\<close>, \<open>item_y\<close>, \<open>item_z\<close> here.
\<close>

record mavlink_mission_target_t =
  target_system :: "8 word"
  target_component :: "8 word"

record mavlink_mission_count_t = mavlink_mission_target_t +
  count :: "16 word"

record mavlink_mission_request_t = mavlink_mission_target_t +
  seq :: "16 word"

record 'f mavlink_mission_item_t = mavlink_mission_request_t +
  frame :: "8 word"
  command :: "16 word"
  current :: "8 word"
  autocontinue :: "8 word"
  param1 :: 'f
  param2 :: 'f
  param3 :: 'f
  param4 :: 'f
  item_x :: 'f
  item_y :: 'f
  item_z :: 'f

text \<open>
  A received frame (\<^verbatim>\<open>mavlink_message_t\<close>): the sender, and the message id together
  with the payload that the handler of that id decodes. \<open>OTHER_MSG\<close> carries the id of
  a message the file has no case for.
\<close>

datatype 'f mavlink_payload =
    HEARTBEAT
  | MISSION_CLEAR_ALL mavlink_mission_target_t
  | MISSION_COUNT mavlink_mission_count_t
  | MISSION_ITEM "'f mavlink_mission_item_t"
  | MISSION_REQUEST_LIST mavlink_mission_target_t
  | MISSION_REQUEST mavlink_mission_request_t
  | OTHER_MSG "32 word"

record 'f mavlink_message_t =
  sysid :: "8 word"
  compid :: "8 word"
  payload :: "'f mavlink_payload"

text \<open>
  What \<^verbatim>\<open>mavlinkSendMessage\<close> writes to the port: the packed message, with the
  receiver's system and component id first (inside the struct for an item). \<open>SEND_STREAM\<close> stands for the messages
  of one scheduled stream.
\<close>

datatype 'f mav_sent =
    SEND_MISSION_ACK "8 word" "8 word" MAV_MISSION_RESULT
  | SEND_MISSION_REQUEST "8 word" "8 word" "16 word"
  | SEND_MISSION_COUNT "8 word" "8 word" "16 word"
  | SEND_MISSION_ITEM "'f mavlink_mission_item_t"
  | SEND_STREAM MAV_DATA_STREAM

subsection \<open>State\<close>

text \<open>
  The static variables of the file, and what it reads and writes outside itself:
  the bytes waiting in the serial port (\<open>None\<close> is the \<^verbatim>\<open>NULL\<close> port), the arming flag,
  the waypoint list of the navigation subsystem, and the messages written to the port.
\<close>

record ('f, 'ps) telemetry =
  mavlinkPort :: "8 word list option"
  mavlinkTelemetryEnabled :: bool
  mavRates :: "MAV_DATA_STREAM \<Rightarrow> 8 word"
  mavTicks :: "MAV_DATA_STREAM \<Rightarrow> 8 word"
  lastMavlinkMessage :: "32 word"
  mavRecvMsg :: "'f mavlink_message_t"
  mavRecvStatus :: 'ps
  mavSystemId :: "8 word"
  mavComponentId :: "8 word"
  incomingMissionWpCount :: int
  incomingMissionWpSequence :: int
  incomingRequestServed :: bool
  ARMED :: bool
  waypointList :: "navWaypoint_t list"
  sent :: "'f mav_sent list"

text \<open>
  What the file takes from other files: the capacity of the waypoint list, the build
  flag of the position stream, the validation of the navigation subsystem, the byte
  parser of the MAVLink library, and the four float computations of the item
  conversion (\<^verbatim>\<open>(int32_t)(v * 1e7f)\<close>, \<^verbatim>\<open>v * 100.0f\<close> stored in an \<^verbatim>\<open>int32_t\<close>,
  \<^verbatim>\<open>n / 1e7f\<close>, \<^verbatim>\<open>n / 100.0f\<close>).
\<close>

record ('f, 'ps) env =
  NAV_MAX_WAYPOINTS :: int
  USE_GPS :: bool
  isWaypointListValid :: "navWaypoint_t list \<Rightarrow> bool"
  mavlink_parse_char ::
    "8 word \<Rightarrow> 'f mavlink_message_t \<Rightarrow> 'ps \<Rightarrow> mavlink_framing_t \<times> 'f mavlink_message_t \<times> 'ps"
  deg_to_e7 :: "'f \<Rightarrow> 32 word"
  m_to_cm :: "'f \<Rightarrow> 32 word"
  e7_to_deg :: "32 word \<Rightarrow> 'f"
  cm_to_m :: "32 word \<Rightarrow> 'f"
  float_zero :: 'f

text \<open>The static initialisers; the default rates are those of \<^verbatim>\<open>mavRates[]\<close>.\<close>

definition default_mavRates :: "MAV_DATA_STREAM \<Rightarrow> 8 word" where
  "default_mavRates s =
     (case s of
        MAV_DATA_STREAM_EXTENDED_STATUS \<Rightarrow> 2
      | MAV_DATA_STREAM_RC_CHANNELS \<Rightarrow> 5
      | MAV_DATA_STREAM_POSITION \<Rightarrow> 2
      | MAV_DATA_STREAM_EXTRA1 \<Rightarrow> 10
      | MAV_DATA_STREAM_EXTRA2 \<Rightarrow> 2
      | MAV_DATA_STREAM_EXTRA3 \<Rightarrow> 1)"

definition telemetry_init :: "'ps \<Rightarrow> bool \<Rightarrow> navWaypoint_t list \<Rightarrow> ('f, 'ps) telemetry" where
  "telemetry_init status0 armed0 wps0 =
     \<lparr> mavlinkPort = None,
       mavlinkTelemetryEnabled = False,
       mavRates = default_mavRates,
       mavTicks = (\<lambda>_. 0),
       lastMavlinkMessage = 0,
       mavRecvMsg = \<lparr> sysid = 0, compid = 0, payload = HEARTBEAT \<rparr>,
       mavRecvStatus = status0,
       mavSystemId = 1,
       mavComponentId = MAV_COMP_ID_SYSTEM_CONTROL,
       incomingMissionWpCount = 0,
       incomingMissionWpSequence = 0,
       incomingRequestServed = False,
       ARMED = armed0,
       waypointList = wps0,
       sent = [] \<rparr>"

subsection \<open>Rate scheduler\<close>

definition mavlinkStreamTrigger ::
  "MAV_DATA_STREAM \<Rightarrow> ('f, 'ps) telemetry \<Rightarrow> bool \<times> ('f, 'ps) telemetry" where
  "mavlinkStreamTrigger streamNum st =
     (let rate = mavRates st streamNum in
      if rate = 0 then (False, st)
      else if mavTicks st streamNum = 0 then
        (let rate' = (if rate > TELEMETRY_MAVLINK_MAXRATE then TELEMETRY_MAVLINK_MAXRATE else rate)
         in (True, st\<lparr>mavTicks := (mavTicks st)(streamNum := TELEMETRY_MAVLINK_MAXRATE div rate')\<rparr>))
      else (False, st\<lparr>mavTicks := (mavTicks st)(streamNum := mavTicks st streamNum - 1)\<rparr>))"

text \<open>The number of triggers of a stream in \<open>n\<close> successive calls.\<close>

fun trigger_count :: "nat \<Rightarrow> MAV_DATA_STREAM \<Rightarrow> ('f, 'ps) telemetry \<Rightarrow> nat" where
  "trigger_count 0 streamNum st = 0"
| "trigger_count (Suc n) streamNum st =
     (case mavlinkStreamTrigger streamNum st of
        (fired, st') \<Rightarrow> (if fired then 1 else 0) + trigger_count n streamNum st')"

subsection \<open>Waypoint list of the navigation subsystem\<close>

text \<open>
  Modelled from the spec: \<^verbatim>\<open>resetWaypointList\<close> of the navigation subsystem
  (navigation/navigation.c) is not in this file. The spec's mission is "an ordered
  sequence of waypoints" that a list-clear empties.
\<close>

definition resetWaypointList :: "navWaypoint_t list \<Rightarrow> navWaypoint_t list" where
  "resetWaypointList wps = []"

text \<open>
  Modelled from the spec: \<^verbatim>\<open>getWaypointCount\<close> of the navigation subsystem is not in
  this file. It is the "current list length".
\<close>

definition getWaypointCount :: "navWaypoint_t list \<Rightarrow> int" where
  "getWaypointCount wps = int (length wps)"

text \<open>
  Modelled from the spec: \<^verbatim>\<open>setWaypoint\<close> of the navigation subsystem is not in this
  file. The spec has the core "store" a waypoint by its number, counted from 1, in a
  list of at most \<^verbatim>\<open>MAX_WAYPOINTS\<close> entries, and has an upload in sequence end with
  a list of as many entries as were uploaded. So number 1 starts a new list and the
  number after the last entry extends the list; the spec says nothing about another
  number, which leaves the list as it is here.
\<close>

definition setWaypoint ::
  "int \<Rightarrow> int \<Rightarrow> navWaypoint_t \<Rightarrow> navWaypoint_t list \<Rightarrow> navWaypoint_t list" where
  "setWaypoint maxWaypoints wpNumber wpData wps =
     (if 1 \<le> wpNumber \<and> wpNumber \<le> maxWaypoints
         \<and> (wpNumber = int (length wps) + 1 \<or> wpNumber = 1)
      then take (nat (wpNumber - 1)) wps @ [wpData]
      else wps)"

text \<open>
  Modelled from the spec: \<^verbatim>\<open>getWaypoint\<close> of the navigation subsystem is not in this
  file. It reads the stored waypoint of a number, counted from 1; \<open>None\<close> where the
  list has no such entry.
\<close>

definition getWaypoint :: "int \<Rightarrow> navWaypoint_t list \<Rightarrow> navWaypoint_t option" where
  "getWaypoint wpNumber wps =
     (if 1 \<le> wpNumber \<and> wpNumber \<le> int (length wps)
      then Some (wps ! nat (wpNumber - 1))
      else None)"

subsection \<open>Mission transfer handlers\<close>

text \<open>
  Packing a message into \<^verbatim>\<open>mavSendMsg\<close> and \<^verbatim>\<open>mavlinkSendMessage()\<close> are one step:
  the packed message is appended to what was written to the port.
\<close>

definition mavlinkSendMessage ::
  "'f mav_sent \<Rightarrow> ('f, 'ps) telemetry \<Rightarrow> ('f, 'ps) telemetry" where
  "mavlinkSendMessage m st = st\<lparr>sent := sent st @ [m]\<rparr>"

definition mission_ack ::
  "MAV_MISSION_RESULT \<Rightarrow> ('f, 'ps) telemetry \<Rightarrow> ('f, 'ps) telemetry" where
  "mission_ack r st =
     mavlinkSendMessage
       (SEND_MISSION_ACK (sysid (mavRecvMsg st)) (compid (mavRecvMsg st)) r) st"

definition mission_request ::
  "('f, 'ps) telemetry \<Rightarrow> ('f, 'ps) telemetry" where
  "mission_request st =
     mavlinkSendMessage
       (SEND_MISSION_REQUEST (sysid (mavRecvMsg st)) (compid (mavRecvMsg st))
          (word_of_int (incomingMissionWpSequence st))) st"

definition handleIncoming_MISSION_CLEAR_ALL ::
  "mavlink_mission_target_t \<Rightarrow> ('f, 'ps) telemetry \<Rightarrow> bool \<times> ('f, 'ps) telemetry" where
  "handleIncoming_MISSION_CLEAR_ALL msg st =
     (if target_system msg = mavSystemId st then
        (True, mission_ack MAV_MISSION_ACCEPTED
                 (st\<lparr>waypointList := resetWaypointList (waypointList st)\<rparr>))
      else (False, st))"

definition handleIncoming_MISSION_COUNT ::
  "('f, 'ps) env \<Rightarrow> mavlink_mission_count_t \<Rightarrow> ('f, 'ps) telemetry
     \<Rightarrow> bool \<times> ('f, 'ps) telemetry" where
  "handleIncoming_MISSION_COUNT env msg st =
     (if target_system msg = mavSystemId st then
        if uint (count msg) \<le> NAV_MAX_WAYPOINTS env then
          (True, mission_request
                   (st\<lparr>incomingMissionWpCount := uint (count msg),
                       incomingMissionWpSequence := 0\<rparr>))
        else if ARMED st then (True, mission_ack MAV_MISSION_ERROR st)
        else (True, mission_ack MAV_MISSION_NO_SPACE st)
      else (False, st))"

definition handleIncoming_MISSION_ITEM ::
  "('f, 'ps) env \<Rightarrow> 'f mavlink_mission_item_t \<Rightarrow> ('f, 'ps) telemetry
     \<Rightarrow> bool \<times> ('f, 'ps) telemetry" where
  "handleIncoming_MISSION_ITEM env msg st =
     (if target_system msg = mavSystemId st then
        if ARMED st then (True, mission_ack MAV_MISSION_ERROR st)
        else if autocontinue msg = 0
                \<or> (command msg \<noteq> MAV_CMD_NAV_WAYPOINT
                    \<and> command msg \<noteq> MAV_CMD_NAV_RETURN_TO_LAUNCH)
        then (True, mission_ack MAV_MISSION_UNSUPPORTED st)
        else if frame msg \<noteq> MAV_FRAME_GLOBAL_RELATIVE_ALT
                \<and> \<not> (frame msg = MAV_FRAME_MISSION
                       \<and> command msg = MAV_CMD_NAV_RETURN_TO_LAUNCH)
        then (True, mission_ack MAV_MISSION_UNSUPPORTED_FRAME st)
        else if uint (seq msg) = incomingMissionWpSequence st then
          (let st1 = st\<lparr>incomingMissionWpSequence := incomingMissionWpSequence st + 1\<rparr>;
               wp = \<lparr> action = (if command msg = MAV_CMD_NAV_RETURN_TO_LAUNCH
                                then NAV_WP_ACTION_RTH else NAV_WP_ACTION_WAYPOINT),
                      lat = deg_to_e7 env (item_x msg),
                      lon = deg_to_e7 env (item_y msg),
                      alt = m_to_cm env (item_z msg),
                      p1 = 0, p2 = 0, p3 = 0,
                      flag = (if incomingMissionWpSequence st1 \<ge> incomingMissionWpCount st1
                              then NAV_WP_FLAG_LAST else 0) \<rparr>;
               st2 = st1\<lparr>waypointList :=
                           setWaypoint (NAV_MAX_WAYPOINTS env) (incomingMissionWpSequence st1)
                             wp (waypointList st1)\<rparr>
           in if incomingMissionWpSequence st2 \<ge> incomingMissionWpCount st2 then
                if isWaypointListValid env (waypointList st2)
                then (True, mission_ack MAV_MISSION_ACCEPTED st2)
                else (True, mission_ack MAV_MISSION_INVALID st2)
              else (True, mission_request st2))
        else (True, mission_ack MAV_MISSION_INVALID_SEQUENCE st)
      else (False, st))"

definition handleIncoming_MISSION_REQUEST_LIST ::
  "mavlink_mission_target_t \<Rightarrow> ('f, 'ps) telemetry \<Rightarrow> bool \<times> ('f, 'ps) telemetry" where
  "handleIncoming_MISSION_REQUEST_LIST msg st =
     (if target_system msg = mavSystemId st then
        (True, mavlinkSendMessage
                 (SEND_MISSION_COUNT (sysid (mavRecvMsg st)) (compid (mavRecvMsg st))
                    (word_of_int (getWaypointCount (waypointList st)))) st)
      else (False, st))"

text \<open>
  The handler reads waypoint \<^verbatim>\<open>msg.seq + 1\<close> only when \<^verbatim>\<open>msg.seq\<close> is below the waypoint
  count, where the waypoint exists (lemma \<open>getWaypoint_in_range\<close> below); the case
  \<open>None\<close> is there for totality.
\<close>

definition handleIncoming_MISSION_REQUEST ::
  "('f, 'ps) env \<Rightarrow> mavlink_mission_request_t \<Rightarrow> ('f, 'ps) telemetry
     \<Rightarrow> bool \<times> ('f, 'ps) telemetry" where
  "handleIncoming_MISSION_REQUEST env msg st =
     (if target_system msg = mavSystemId st then
        (let wpCount = getWaypointCount (waypointList st) in
         if uint (seq msg) < wpCount then
           (case getWaypoint (uint (seq msg) + 1) (waypointList st) of
              Some wp \<Rightarrow>
                (True, mavlinkSendMessage
                   (SEND_MISSION_ITEM
                      \<lparr> target_system = sysid (mavRecvMsg st),
                        target_component = compid (mavRecvMsg st),
                        seq = seq msg,
                        frame = (if action wp = NAV_WP_ACTION_RTH
                                 then MAV_FRAME_MISSION else MAV_FRAME_GLOBAL_RELATIVE_ALT),
                        command = (if action wp = NAV_WP_ACTION_RTH
                                   then MAV_CMD_NAV_RETURN_TO_LAUNCH else MAV_CMD_NAV_WAYPOINT),
                        current = 0,
                        autocontinue = 1,
                        param1 = float_zero env, param2 = float_zero env,
                        param3 = float_zero env, param4 = float_zero env,
                        item_x = e7_to_deg env (lat wp),
                        item_y = e7_to_deg env (lon wp),
                        item_z = cm_to_m env (alt wp) \<rparr>) st)
            | None \<Rightarrow> (True, st))
         else (True, mission_ack MAV_MISSION_INVALID_SEQUENCE st))
      else (False, st))"

subsection \<open>Inbound decoder\<close>

text \<open>
  The \<^verbatim>\<open>switch (mavRecvMsg.msgid)\<close> of the decoder. \<open>None\<close> is the \<^verbatim>\<open>break\<close> of the
  heartbeat case, which leaves the switch and not the function; every other case
  returns.
\<close>

definition msgid_switch ::
  "('f, 'ps) env \<Rightarrow> ('f, 'ps) telemetry \<Rightarrow> (bool \<times> ('f, 'ps) telemetry) option" where
  "msgid_switch env st =
     (case payload (mavRecvMsg st) of
        HEARTBEAT \<Rightarrow> None
      | MISSION_CLEAR_ALL msg \<Rightarrow> Some (handleIncoming_MISSION_CLEAR_ALL msg st)
      | MISSION_COUNT msg \<Rightarrow> Some (handleIncoming_MISSION_COUNT env msg st)
      | MISSION_ITEM msg \<Rightarrow> Some (handleIncoming_MISSION_ITEM env msg st)
      | MISSION_REQUEST_LIST msg \<Rightarrow> Some (handleIncoming_MISSION_REQUEST_LIST msg st)
      | MISSION_REQUEST msg \<Rightarrow> Some (handleIncoming_MISSION_REQUEST env msg st)
      | OTHER_MSG _ \<Rightarrow> Some (False, st))"

text \<open>
  The \<^verbatim>\<open>while (serialRxBytesWaiting(mavlinkPort) > 0)\<close> loop, by recursion on the
  bytes waiting: \<^verbatim>\<open>serialRead\<close> takes the first one and leaves the rest in the port.
\<close>

fun incoming_loop ::
  "('f, 'ps) env \<Rightarrow> 8 word list \<Rightarrow> ('f, 'ps) telemetry \<Rightarrow> bool \<times> ('f, 'ps) telemetry" where
  "incoming_loop env [] st = (False, st)"
| "incoming_loop env (c # waiting) st =
     (case mavlink_parse_char env c (mavRecvMsg st) (mavRecvStatus st) of
        (result, msg, status) \<Rightarrow>
          (let st1 = st\<lparr>mavlinkPort := Some waiting, mavRecvMsg := msg, mavRecvStatus := status\<rparr>
           in if result = MAVLINK_FRAMING_OK then
                (case msgid_switch env st1 of
                   None \<Rightarrow> incoming_loop env waiting st1
                 | Some r \<Rightarrow> r)
              else incoming_loop env waiting st1))"

text \<open>
  The decoder. Its caller has checked that the port is open; with no port there is
  nothing to read.
\<close>

definition processMAVLinkIncomingTelemetry ::
  "('f, 'ps) env \<Rightarrow> ('f, 'ps) telemetry \<Rightarrow> bool \<times> ('f, 'ps) telemetry" where
  "processMAVLinkIncomingTelemetry env st =
     (case mavlinkPort st of
        None \<Rightarrow> (False, st)
      | Some waiting \<Rightarrow> incoming_loop env waiting st)"

subsection \<open>Scheduled streams and the orchestrator\<close>

text \<open>
  One \<^verbatim>\<open>if (mavlinkStreamTrigger(s)) { mavlinkSend...(); }\<close> of
  \<^verbatim>\<open>processMAVLinkTelemetry\<close>.
\<close>

definition stream_if_triggered ::
  "MAV_DATA_STREAM \<Rightarrow> ('f, 'ps) telemetry \<Rightarrow> ('f, 'ps) telemetry" where
  "stream_if_triggered streamNum st =
     (case mavlinkStreamTrigger streamNum st of
        (fired, st') \<Rightarrow> if fired then mavlinkSendMessage (SEND_STREAM streamNum) st' else st')"

definition processMAVLinkTelemetry ::
  "('f, 'ps) env \<Rightarrow> 32 word \<Rightarrow> ('f, 'ps) telemetry \<Rightarrow> ('f, 'ps) telemetry" where
  "processMAVLinkTelemetry env currentTimeUs st =
     (let st1 = stream_if_triggered MAV_DATA_STREAM_EXTENDED_STATUS st;
          st2 = stream_if_triggered MAV_DATA_STREAM_RC_CHANNELS st1;
          st3 = (if USE_GPS env then stream_if_triggered MAV_DATA_STREAM_POSITION st2 else st2);
          st4 = stream_if_triggered MAV_DATA_STREAM_EXTRA1 st3;
          st5 = stream_if_triggered MAV_DATA_STREAM_EXTRA2 st4
      in stream_if_triggered MAV_DATA_STREAM_EXTRA3 st5)"

definition handleMAVLinkTelemetry ::
  "('f, 'ps) env \<Rightarrow> 32 word \<Rightarrow> ('f, 'ps) telemetry \<Rightarrow> ('f, 'ps) telemetry" where
  "handleMAVLinkTelemetry env currentTimeUs st =
     (if \<not> mavlinkTelemetryEnabled st then st
      else if mavlinkPort st = None then st
      else
        (case processMAVLinkIncomingTelemetry env st of
           (served, st0) \<Rightarrow>
             (let st1 = (if served then st0\<lparr>incomingRequestServed := True\<rparr> else st0)
              in if currentTimeUs - lastMavlinkMessage st1 \<ge> TELEMETRY_MAVLINK_DELAY then
                   (let st2 = (if \<not> incomingRequestServed st1
                               then processMAVLinkTelemetry env currentTimeUs st1
                               else st1)
                    in st2\<lparr>lastMavlinkMessage := currentTimeUs,
                           incomingRequestServed := False\<rparr>)
                 else st1)))"

subsection \<open>Sequences of messages\<close>

text \<open>
  An upload: the items are handled one after the other, each by
  \<open>handleIncoming_MISSION_ITEM\<close>. The replies go to the sender in \<^verbatim>\<open>mavRecvMsg\<close>, which
  is the same for all the items.
\<close>

definition upload_items ::
  "('f, 'ps) env \<Rightarrow> 'f mavlink_mission_item_t list \<Rightarrow> ('f, 'ps) telemetry
     \<Rightarrow> ('f, 'ps) telemetry" where
  "upload_items env items st =
     foldl (\<lambda>s msg. snd (handleIncoming_MISSION_ITEM env msg s)) st items"

text \<open>
  Names for what the item handler checks and builds: an item is supported when it
  passes the two checks that answer UNSUPPORTED and UNSUPPORTED_FRAME, and
  \<open>item_waypoint\<close> is the waypoint that the handler stores for it, flagged as the last
  one or not.
\<close>

definition item_supported :: "'f mavlink_mission_item_t \<Rightarrow> bool" where
  "item_supported msg =
     (autocontinue msg \<noteq> 0
      \<and> (command msg = MAV_CMD_NAV_WAYPOINT \<or> command msg = MAV_CMD_NAV_RETURN_TO_LAUNCH)
      \<and> (frame msg = MAV_FRAME_GLOBAL_RELATIVE_ALT
           \<or> (frame msg = MAV_FRAME_MISSION \<and> command msg = MAV_CMD_NAV_RETURN_TO_LAUNCH)))"

definition item_waypoint ::
  "('f, 'ps) env \<Rightarrow> 'f mavlink_mission_item_t \<Rightarrow> bool \<Rightarrow> navWaypoint_t" where
  "item_waypoint env msg is_last =
     \<lparr> action = (if command msg = MAV_CMD_NAV_RETURN_TO_LAUNCH
                  then NAV_WP_ACTION_RTH else NAV_WP_ACTION_WAYPOINT),
       lat = deg_to_e7 env (item_x msg),
       lon = deg_to_e7 env (item_y msg),
       alt = m_to_cm env (item_z msg),
       p1 = 0, p2 = 0, p3 = 0,
       flag = (if is_last then NAV_WP_FLAG_LAST else 0) \<rparr>"

text \<open>
  The list that an upload of \<open>items\<close> is to leave, up to item \<open>k\<close>: the waypoint of
  each item in turn, the last item of the upload flagged.
\<close>

definition uploaded_waypoints ::
  "('f, 'ps) env \<Rightarrow> 'f mavlink_mission_item_t list \<Rightarrow> nat \<Rightarrow> navWaypoint_t list" where
  "uploaded_waypoints env items k =
     map (\<lambda>i. item_waypoint env (items ! i) (Suc i = length items)) [0..<k]"

text \<open>
  One received frame, with the arming flag at that moment: the parser has left the
  frame in \<^verbatim>\<open>mavRecvMsg\<close> and the switch of the decoder runs. A heartbeat changes
  nothing else.
\<close>

definition receive_frame ::
  "('f, 'ps) env \<Rightarrow> bool \<times> 'f mavlink_message_t \<Rightarrow> ('f, 'ps) telemetry
     \<Rightarrow> ('f, 'ps) telemetry" where
  "receive_frame env f st =
     (let st1 = st\<lparr>ARMED := fst f, mavRecvMsg := snd f\<rparr>
      in case msgid_switch env st1 of None \<Rightarrow> st1 | Some r \<Rightarrow> snd r)"

definition run_frames ::
  "('f, 'ps) env \<Rightarrow> (bool \<times> 'f mavlink_message_t) list \<Rightarrow> ('f, 'ps) telemetry
     \<Rightarrow> ('f, 'ps) telemetry" where
  "run_frames env frames st = foldl (\<lambda>s f. receive_frame env f s) st frames"

subsection \<open>An environment for closed examples\<close>

text \<open>
  A small codec: a frame is the byte \<^verbatim>\<open>0xFE\<close> followed by the id of a message, sent
  by system 255 to system 1: 0 is a heartbeat, 45 a list-clear, 43 a list request,
  anything else a message that the file has no case for. The parser status is whether
  the start byte has been read.
\<close>

definition example_payload :: "8 word \<Rightarrow> int mavlink_payload" where
  "example_payload c =
     (if c = 0 then HEARTBEAT
      else if c = 45 then MISSION_CLEAR_ALL \<lparr> target_system = 1, target_component = 0 \<rparr>
      else if c = 43 then MISSION_REQUEST_LIST \<lparr> target_system = 1, target_component = 0 \<rparr>
      else OTHER_MSG (ucast c))"

definition example_parse_char ::
  "8 word \<Rightarrow> int mavlink_message_t \<Rightarrow> bool
     \<Rightarrow> mavlink_framing_t \<times> int mavlink_message_t \<times> bool" where
  "example_parse_char c msg started =
     (if started
      then (MAVLINK_FRAMING_OK, \<lparr> sysid = 255, compid = 0, payload = example_payload c \<rparr>, False)
      else (MAVLINK_FRAMING_INCOMPLETE, msg, c = 0xFE))"

text \<open>
  Coordinates are whole degrees and whole metres; a list is valid when its last
  waypoint carries the end-of-list flag.
\<close>

definition example_env :: "(int, bool) env" where
  "example_env =
     \<lparr> NAV_MAX_WAYPOINTS = 60,
       USE_GPS = True,
       isWaypointListValid = (\<lambda>wps. wps \<noteq> [] \<and> flag (last wps) = NAV_WP_FLAG_LAST),
       mavlink_parse_char = example_parse_char,
       deg_to_e7 = (\<lambda>d. word_of_int (d * 10000000)),
       m_to_cm = (\<lambda>m. word_of_int (m * 100)),
       e7_to_deg = (\<lambda>n. sint n div 10000000),
       cm_to_m = (\<lambda>n. sint n div 100),
       float_zero = 0 \<rparr>"

definition example_item ::
  "16 word \<Rightarrow> 8 word \<Rightarrow> 16 word \<Rightarrow> int mavlink_mission_item_t" where
  "example_item s fr cmd =
     \<lparr> target_system = 1, target_component = 0, seq = s,
       frame = fr, command = cmd, current = 0, autocontinue = 1,
       param1 = 0, param2 = 0, param3 = 0, param4 = 0,
       item_x = 47, item_y = 8, item_z = 120 \<rparr>"

definition example_count :: "16 word \<Rightarrow> mavlink_mission_count_t" where
  "example_count n = \<lparr> target_system = 1, target_component = 0, count = n \<rparr>"

definition example_clear_all :: mavlink_mission_target_t where
  "example_clear_all = \<lparr> target_system = 1, target_component = 0 \<rparr>"

definition example_frame :: "int mavlink_payload \<Rightarrow> int mavlink_message_t" where
  "example_frame p = \<lparr> sysid = 255, compid = 0, payload = p \<rparr>"

text \<open>The state after start-up, disarmed and with an empty waypoint list.\<close>

definition example_init :: "(int, bool) telemetry" where
  "example_init = telemetry_init False False []"

subsection \<open>Predicates for the properties\<close>

text \<open>A message of a scheduled stream, as opposed to a reply of a mission handler.\<close>

definition is_stream :: "'f mav_sent \<Rightarrow> bool" where
  "is_stream m = (case m of SEND_STREAM _ \<Rightarrow> True | _ \<Rightarrow> False)"

text \<open>
  The \<^verbatim>\<open>target_system\<close> of a frame that has a mission handler; a heartbeat and a
  message the file has no case for have none.
\<close>

definition mission_target :: "'f mavlink_payload \<Rightarrow> 8 word option" where
  "mission_target p =
     (case p of
        HEARTBEAT \<Rightarrow> None
      | MISSION_CLEAR_ALL msg \<Rightarrow> Some (target_system msg)
      | MISSION_COUNT msg \<Rightarrow> Some (target_system msg)
      | MISSION_ITEM msg \<Rightarrow> Some (target_system msg)
      | MISSION_REQUEST_LIST msg \<Rightarrow> Some (target_system msg)
      | MISSION_REQUEST msg \<Rightarrow> Some (target_system msg)
      | OTHER_MSG _ \<Rightarrow> None)"

text \<open>
  What every mission handler leaves alone, and that it writes at most one message,
  which is not a stream message.
\<close>

definition handler_effect ::
  "('f, 'ps) telemetry \<Rightarrow> bool \<times> ('f, 'ps) telemetry \<Rightarrow> bool" where
  "handler_effect st r =
     (mavRecvMsg (snd r) = mavRecvMsg st
      \<and> mavRecvStatus (snd r) = mavRecvStatus st
      \<and> mavlinkPort (snd r) = mavlinkPort st
      \<and> mavTicks (snd r) = mavTicks st
      \<and> mavRates (snd r) = mavRates st
      \<and> mavSystemId (snd r) = mavSystemId st
      \<and> lastMavlinkMessage (snd r) = lastMavlinkMessage st
      \<and> incomingRequestServed (snd r) = incomingRequestServed st
      \<and> mavlinkTelemetryEnabled (snd r) = mavlinkTelemetryEnabled st
      \<and> ARMED (snd r) = ARMED st
      \<and> (\<exists>ms. sent (snd r) = sent st @ ms \<and> length ms \<le> 1 \<and> filter is_stream ms = []))"

text \<open>
  What a call of the decoder does to a state whose port holds \<open>waiting\<close>: it reads
  some of the bytes, hands at most one frame to a handler, reports only a mission
  frame addressed to this system as handled and does not stop early at a heartbeat.
\<close>

definition decoder_effect ::
  "8 word list \<Rightarrow> ('f, 'ps) telemetry \<Rightarrow> bool \<times> ('f, 'ps) telemetry \<Rightarrow> bool" where
  "decoder_effect waiting st r =
     ((\<exists>n\<le>length waiting. mavlinkPort (snd r) = Some (drop n waiting))
      \<and> mavTicks (snd r) = mavTicks st
      \<and> mavRates (snd r) = mavRates st
      \<and> mavSystemId (snd r) = mavSystemId st
      \<and> lastMavlinkMessage (snd r) = lastMavlinkMessage st
      \<and> incomingRequestServed (snd r) = incomingRequestServed st
      \<and> mavlinkTelemetryEnabled (snd r) = mavlinkTelemetryEnabled st
      \<and> (\<exists>ms. sent (snd r) = sent st @ ms \<and> length ms \<le> 1 \<and> filter is_stream ms = [])
      \<and> (fst r \<longrightarrow> mission_target (payload (mavRecvMsg (snd r))) = Some (mavSystemId st))
      \<and> (mavlinkPort (snd r) \<noteq> Some [] \<longrightarrow> payload (mavRecvMsg (snd r)) \<noteq> HEARTBEAT))"

text \<open>
  What the byte parser delivers for a stream of bytes, fed one byte after the other
  from a given parser state: the state it ends in, and the complete frames in the
  order in which they were completed. \<open>only_heartbeats\<close> says that every complete frame
  in the bytes, parsed from the parser state of \<open>st\<close>, is a heartbeat.
\<close>

fun parser_after ::
  "('f, 'ps) env \<Rightarrow> 8 word list \<Rightarrow> 'f mavlink_message_t \<Rightarrow> 'ps \<Rightarrow> 'f mavlink_message_t \<times> 'ps" where
  "parser_after env [] msg status = (msg, status)"
| "parser_after env (c # bytes) msg status =
     (case mavlink_parse_char env c msg status of
        (result, msg', status') \<Rightarrow> parser_after env bytes msg' status')"

fun frames_of ::
  "('f, 'ps) env \<Rightarrow> 8 word list \<Rightarrow> 'f mavlink_message_t \<Rightarrow> 'ps \<Rightarrow> 'f mavlink_message_t list" where
  "frames_of env [] msg status = []"
| "frames_of env (c # bytes) msg status =
     (case mavlink_parse_char env c msg status of
        (result, msg', status') \<Rightarrow>
          (if result = MAVLINK_FRAMING_OK then [msg'] else []) @ frames_of env bytes msg' status')"

definition only_heartbeats ::
  "('f, 'ps) env \<Rightarrow> 8 word list \<Rightarrow> ('f, 'ps) telemetry \<Rightarrow> bool" where
  "only_heartbeats env bytes st =
     list_all (\<lambda>m. payload m = HEARTBEAT) (frames_of env bytes (mavRecvMsg st) (mavRecvStatus st))"

text \<open>
  The two messages that write a session counter: a count announcement is accepted when
  it is addressed to this system and announces at most \<^verbatim>\<open>NAV_MAX_WAYPOINTS\<close> items (the
  result is the announced count), and an item is accepted when it is addressed to this
  system, the vehicle is disarmed, the item is supported and its sequence number is
  the awaited one.
\<close>

definition announcement_accepted ::
  "('f, 'ps) env \<Rightarrow> 8 word \<Rightarrow> 'f mavlink_payload \<Rightarrow> int option" where
  "announcement_accepted env sysId p =
     (case p of
        MISSION_COUNT msg \<Rightarrow>
          if target_system msg = sysId \<and> uint (count msg) \<le> NAV_MAX_WAYPOINTS env
          then Some (uint (count msg)) else None
      | _ \<Rightarrow> None)"

definition item_accepted ::
  "bool \<Rightarrow> 8 word \<Rightarrow> int \<Rightarrow> 'f mavlink_payload \<Rightarrow> bool" where
  "item_accepted armed sysId awaited p =
     (case p of
        MISSION_ITEM msg \<Rightarrow>
          target_system msg = sysId \<and> \<not> armed \<and> item_supported msg \<and> uint (seq msg) = awaited
      | _ \<Rightarrow> False)"

text \<open>The bounds of the two session counters.\<close>

definition session_bounds :: "('f, 'ps) env \<Rightarrow> ('f, 'ps) telemetry \<Rightarrow> bool" where
  "session_bounds env st =
     (0 \<le> incomingMissionWpSequence st \<and> incomingMissionWpSequence st \<le> 65536
      \<and> 0 \<le> incomingMissionWpCount st \<and> incomingMissionWpCount st \<le> NAV_MAX_WAYPOINTS env)"

section \<open>Properties\<close>

lemmas example_defs =
  example_env_def example_init_def example_item_def example_clear_all_def
  telemetry_init_def example_parse_char_def example_payload_def

lemmas handler_defs =
  handleIncoming_MISSION_CLEAR_ALL_def handleIncoming_MISSION_COUNT_def
  handleIncoming_MISSION_ITEM_def handleIncoming_MISSION_REQUEST_LIST_def
  handleIncoming_MISSION_REQUEST_def mission_ack_def mission_request_def
  mavlinkSendMessage_def

lemmas const_defs =
  MAV_FRAME_MISSION_def MAV_FRAME_GLOBAL_RELATIVE_ALT_def MAV_CMD_NAV_WAYPOINT_def
  MAV_CMD_NAV_RETURN_TO_LAUNCH_def NAV_WP_FLAG_LAST_def MAV_COMP_ID_SYSTEM_CONTROL_def

subsection \<open>Rate scheduler\<close>

text \<open>
  A stream of rate \<open>r > 0\<close> is reloaded with \<open>k = 50 div min r 50\<close> when it fires, counts
  \<open>k\<close> calls down to zero and fires at the call after those: the period is \<open>k + 1\<close> calls.
  With \<open>j \<le> k\<close> calls left on the counter, \<open>n\<close> calls fire \<open>(n + k - j) div (k + 1)\<close> times.
\<close>

lemma trigger_count_formula:
  fixes st :: "('f, 'ps) telemetry"
  assumes r: "mavRates st s \<noteq> 0"
    and k: "k = unat (TELEMETRY_MAVLINK_MAXRATE div
              (if mavRates st s > TELEMETRY_MAVLINK_MAXRATE
               then TELEMETRY_MAVLINK_MAXRATE else mavRates st s))"
    and j: "unat (mavTicks st s) \<le> k"
  shows "trigger_count n s st = (n + k - unat (mavTicks st s)) div (k + 1)"
  using r k j
proof (induction n arbitrary: st)
  case 0
  then show ?case by simp
next
  case (Suc n)
  let ?st' = "snd (mavlinkStreamTrigger s st)"
  show ?case
  proof (cases "mavTicks st s = 0")
    case True
    have fired: "fst (mavlinkStreamTrigger s st) = True"
      using Suc.prems True by (simp add: mavlinkStreamTrigger_def Let_def)
    have rates': "mavRates ?st' = mavRates st"
      using Suc.prems True by (simp add: mavlinkStreamTrigger_def Let_def)
    have ticks': "unat (mavTicks ?st' s) = k"
      using Suc.prems True by (simp add: mavlinkStreamTrigger_def Let_def)
    have "trigger_count n s ?st' = (n + k - unat (mavTicks ?st' s)) div (k + 1)"
      by (rule Suc.IH) (use Suc.prems rates' ticks' in simp_all)
    then have "trigger_count n s ?st' = n div (k + 1)"
      using ticks' by simp
    moreover have "(Suc n + k) div (k + 1) = Suc (n div (k + 1))"
    proof -
      have "(n + (k + 1)) div (k + 1) = n div (k + 1) + 1"
        by (rule div_add_self2) simp
      then show ?thesis by simp
    qed
    ultimately show ?thesis
      using fired True by (simp add: split_beta)
  next
    case False
    have fired: "fst (mavlinkStreamTrigger s st) = False"
      using Suc.prems False by (simp add: mavlinkStreamTrigger_def Let_def)
    have rates': "mavRates ?st' = mavRates st"
      using Suc.prems False by (simp add: mavlinkStreamTrigger_def Let_def)
    have pos: "0 < unat (mavTicks st s)"
      using False by (simp add: unat_gt_0)
    have ticks': "unat (mavTicks ?st' s) = unat (mavTicks st s) - 1"
      using Suc.prems False by (simp add: mavlinkStreamTrigger_def Let_def unat_minus_one)
    have "trigger_count n s ?st' = (n + k - unat (mavTicks ?st' s)) div (k + 1)"
      by (rule Suc.IH) (use Suc.prems rates' ticks' in simp_all)
    then have "trigger_count n s ?st' = (Suc n + k - unat (mavTicks st s)) div (k + 1)"
      using ticks' pos Suc.prems(3) by (simp add: Suc_diff_le)
    then show ?thesis
      using fired by (simp add: split_beta)
  qed
qed

lemma trigger_count_rate_zero:
  "mavRates st s = 0 \<Longrightarrow> trigger_count n s st = 0"
  by (induction n) (simp_all add: mavlinkStreamTrigger_def)

text \<open>
  C7, at the rates that fail it. The scheduler is called 50 times a second, so 3000
  calls are one minute. The stream \<^verbatim>\<open>MAV_DATA_STREAM_EXTRA1\<close>, whose default rate the
  file gives as 10 Hz, fires 500 times in that minute and not 600 (8.3 a second); a
  stream configured to 50 Hz fires 1500 times and not 3000 (25 a second). Both start
  with the counter at zero.
\<close>

theorem stream_rate_below_configured:
  "mavRates example_init MAV_DATA_STREAM_EXTRA1 = 10
   \<and> mavTicks example_init MAV_DATA_STREAM_EXTRA1 = 0
   \<and> trigger_count 3000 MAV_DATA_STREAM_EXTRA1 example_init = 500
   \<and> trigger_count 3000 MAV_DATA_STREAM_EXTRA1 (example_init\<lparr>mavRates := (\<lambda>_. 50)\<rparr>) = 1500"
proof -
  have a: "mavRates example_init MAV_DATA_STREAM_EXTRA1 = 10"
      "mavTicks example_init MAV_DATA_STREAM_EXTRA1 = 0"
    by (simp_all add: example_defs default_mavRates_def)
  have "trigger_count 3000 MAV_DATA_STREAM_EXTRA1 example_init
          = (3000 + 5 - unat (mavTicks example_init MAV_DATA_STREAM_EXTRA1)) div (5 + 1)"
    by (rule trigger_count_formula) (simp_all add: a TELEMETRY_MAVLINK_MAXRATE_def)
  then have b: "trigger_count 3000 MAV_DATA_STREAM_EXTRA1 example_init = 500"
    by (simp add: a)
  let ?st = "example_init\<lparr>mavRates := (\<lambda>_. 50)\<rparr> :: (int, bool) telemetry"
  have c: "mavRates ?st MAV_DATA_STREAM_EXTRA1 = 50"
    by simp
  have "trigger_count 3000 MAV_DATA_STREAM_EXTRA1 ?st
          = (3000 + 1 - unat (mavTicks ?st MAV_DATA_STREAM_EXTRA1)) div (1 + 1)"
    by (rule trigger_count_formula) (simp_all add: a c TELEMETRY_MAVLINK_MAXRATE_def)
  then have d: "trigger_count 3000 MAV_DATA_STREAM_EXTRA1 ?st = 1500"
    by (simp add: a c numeral_2_eq_2 [symmetric])
  show ?thesis using a b d by simp
qed

subsection \<open>List-clear\<close>

text \<open>
  C2 (amended): for every state, a list-clear addressed to this system is reported as
  handled, empties the waypoint list and sends an ACCEPTED ack to the sender; nothing
  else changes, so \<^verbatim>\<open>incomingMissionWpCount\<close> and \<^verbatim>\<open>incomingMissionWpSequence\<close> keep
  their values (the handler does not reset them to zero).
\<close>

theorem clear_all_keeps_counters:
  assumes "target_system msg = mavSystemId st"
  shows "handleIncoming_MISSION_CLEAR_ALL msg st =
           (True, st\<lparr>waypointList := [],
                     sent := sent st @ [SEND_MISSION_ACK (sysid (mavRecvMsg st))
                                          (compid (mavRecvMsg st)) MAV_MISSION_ACCEPTED]\<rparr>)"
  using assms by (simp add: handler_defs resetWaypointList_def)

text \<open>The amended C2 in a session of three items that awaits item 1.\<close>

theorem clear_all_keeps_counters_witness:
  "target_system example_clear_all
     = mavSystemId (example_init\<lparr>incomingMissionWpCount := 3, incomingMissionWpSequence := 1\<rparr>)
   \<and> incomingMissionWpCount (snd (handleIncoming_MISSION_CLEAR_ALL example_clear_all
          (example_init\<lparr>incomingMissionWpCount := 3, incomingMissionWpSequence := 1\<rparr>))) = 3
   \<and> incomingMissionWpSequence (snd (handleIncoming_MISSION_CLEAR_ALL example_clear_all
          (example_init\<lparr>incomingMissionWpCount := 3, incomingMissionWpSequence := 1\<rparr>))) = 1"
proof -
  have h: "target_system example_clear_all
             = mavSystemId (example_init\<lparr>incomingMissionWpCount := 3,
                                         incomingMissionWpSequence := 1\<rparr>)"
    by (simp add: example_defs)
  show ?thesis
    using h clear_all_keeps_counters [OF h] by simp
qed

text \<open>
  C2 as stated fails: after a count announcement of 3 and a list-clear the expected
  count is still 3.
\<close>

theorem clear_all_counterexample:
  "incomingMissionWpCount
     (snd (handleIncoming_MISSION_CLEAR_ALL example_clear_all
        (snd (handleIncoming_MISSION_COUNT example_env (example_count 3) example_init)))) = 3"
  by (simp add: example_defs example_count_def handler_defs)

subsection \<open>Frame check of an item\<close>

text \<open>
  C4 (amended): for every addressed, disarmed item upload whose command and
  autocontinue pass the support check, the item is answered with an UNSUPPORTED_FRAME
  ack, and nothing else changes, exactly when its frame is neither the global
  relative-altitude frame nor the mission frame of a RETURN_TO_LAUNCH command. A
  WAYPOINT command requires the global relative-altitude frame; a RETURN_TO_LAUNCH
  command passes with the mission frame and with the global relative-altitude frame.
\<close>

theorem unsupported_frame_iff:
  assumes "target_system msg = mavSystemId st"
    and "\<not> ARMED st"
    and "autocontinue msg \<noteq> 0"
    and "command msg = MAV_CMD_NAV_WAYPOINT \<or> command msg = MAV_CMD_NAV_RETURN_TO_LAUNCH"
  shows "(frame msg \<noteq> MAV_FRAME_GLOBAL_RELATIVE_ALT
            \<and> \<not> (frame msg = MAV_FRAME_MISSION \<and> command msg = MAV_CMD_NAV_RETURN_TO_LAUNCH)
          \<longrightarrow> handleIncoming_MISSION_ITEM env msg st =
                (True, st\<lparr>sent := sent st @ [SEND_MISSION_ACK (sysid (mavRecvMsg st))
                             (compid (mavRecvMsg st)) MAV_MISSION_UNSUPPORTED_FRAME]\<rparr>))
       \<and> (frame msg = MAV_FRAME_GLOBAL_RELATIVE_ALT
            \<or> (frame msg = MAV_FRAME_MISSION \<and> command msg = MAV_CMD_NAV_RETURN_TO_LAUNCH)
          \<longrightarrow> sent (snd (handleIncoming_MISSION_ITEM env msg st)) \<noteq>
                sent st @ [SEND_MISSION_ACK (sysid (mavRecvMsg st))
                             (compid (mavRecvMsg st)) MAV_MISSION_UNSUPPORTED_FRAME])"
  using assms by (auto simp add: handler_defs Let_def)

text \<open>
  The amended C4 at a WAYPOINT in the mission frame (rejected) and at a
  RETURN_TO_LAUNCH in the mission frame (not rejected).
\<close>

theorem unsupported_frame_iff_witness:
  "target_system (example_item 0 MAV_FRAME_MISSION MAV_CMD_NAV_WAYPOINT) = mavSystemId example_init
   \<and> \<not> ARMED example_init
   \<and> autocontinue (example_item 0 MAV_FRAME_MISSION MAV_CMD_NAV_WAYPOINT) \<noteq> 0
   \<and> command (example_item 0 MAV_FRAME_MISSION MAV_CMD_NAV_WAYPOINT) = MAV_CMD_NAV_WAYPOINT
   \<and> frame (example_item 0 MAV_FRAME_MISSION MAV_CMD_NAV_WAYPOINT) \<noteq> MAV_FRAME_GLOBAL_RELATIVE_ALT
   \<and> handleIncoming_MISSION_ITEM example_env
        (example_item 0 MAV_FRAME_MISSION MAV_CMD_NAV_WAYPOINT) example_init
      = (True, example_init\<lparr>sent := [SEND_MISSION_ACK 0 0 MAV_MISSION_UNSUPPORTED_FRAME]\<rparr>)
   \<and> frame (example_item 0 MAV_FRAME_MISSION MAV_CMD_NAV_RETURN_TO_LAUNCH) = MAV_FRAME_MISSION
   \<and> command (example_item 0 MAV_FRAME_MISSION MAV_CMD_NAV_RETURN_TO_LAUNCH)
        = MAV_CMD_NAV_RETURN_TO_LAUNCH
   \<and> sent (snd (handleIncoming_MISSION_ITEM example_env
        (example_item 0 MAV_FRAME_MISSION MAV_CMD_NAV_RETURN_TO_LAUNCH) example_init))
      \<noteq> [SEND_MISSION_ACK 0 0 MAV_MISSION_UNSUPPORTED_FRAME]"
proof -
  let ?wp = "example_item 0 MAV_FRAME_MISSION MAV_CMD_NAV_WAYPOINT"
  let ?rtl = "example_item 0 MAV_FRAME_MISSION MAV_CMD_NAV_RETURN_TO_LAUNCH"
  have a: "target_system ?wp = mavSystemId example_init" "\<not> ARMED example_init"
      "autocontinue ?wp \<noteq> 0"
      "command ?wp = MAV_CMD_NAV_WAYPOINT \<or> command ?wp = MAV_CMD_NAV_RETURN_TO_LAUNCH"
    by (simp_all add: example_defs)
  have b: "target_system ?rtl = mavSystemId example_init"
      "autocontinue ?rtl \<noteq> 0"
      "command ?rtl = MAV_CMD_NAV_WAYPOINT \<or> command ?rtl = MAV_CMD_NAV_RETURN_TO_LAUNCH"
    by (simp_all add: example_defs)
  have c: "frame ?wp \<noteq> MAV_FRAME_GLOBAL_RELATIVE_ALT" "frame ?wp = MAV_FRAME_MISSION"
      "command ?wp = MAV_CMD_NAV_WAYPOINT" "command ?wp \<noteq> MAV_CMD_NAV_RETURN_TO_LAUNCH"
      "frame ?rtl = MAV_FRAME_MISSION" "command ?rtl = MAV_CMD_NAV_RETURN_TO_LAUNCH"
      "sent example_init = []" "sysid (mavRecvMsg example_init) = 0"
      "compid (mavRecvMsg example_init) = 0"
    by (simp_all add: example_defs const_defs)
  from unsupported_frame_iff [where env = example_env, OF a(1) a(2) a(3) a(4)]
       unsupported_frame_iff [where env = example_env, OF b(1) a(2) b(2) b(3)]
  show ?thesis
    using a b c by simp
qed

text \<open>
  C4 as stated fails: a RETURN_TO_LAUNCH item in the global relative-altitude frame,
  which is not the mission frame, is stored and answered with the final ack of the
  upload, not with UNSUPPORTED_FRAME.
\<close>

theorem rtl_relative_alt_frame_counterexample:
  "command (example_item 0 MAV_FRAME_GLOBAL_RELATIVE_ALT MAV_CMD_NAV_RETURN_TO_LAUNCH)
      = MAV_CMD_NAV_RETURN_TO_LAUNCH
   \<and> frame (example_item 0 MAV_FRAME_GLOBAL_RELATIVE_ALT MAV_CMD_NAV_RETURN_TO_LAUNCH)
      \<noteq> MAV_FRAME_MISSION
   \<and> sent (snd (handleIncoming_MISSION_ITEM example_env
        (example_item 0 MAV_FRAME_GLOBAL_RELATIVE_ALT MAV_CMD_NAV_RETURN_TO_LAUNCH) example_init))
      = [SEND_MISSION_ACK 0 0 MAV_MISSION_ACCEPTED]
   \<and> incomingMissionWpSequence (snd (handleIncoming_MISSION_ITEM example_env
        (example_item 0 MAV_FRAME_GLOBAL_RELATIVE_ALT MAV_CMD_NAV_RETURN_TO_LAUNCH) example_init))
      = 1"
  by (simp add: example_defs handler_defs const_defs setWaypoint_def)

subsection \<open>Requests while armed\<close>

text \<open>
  C5 (amended): every item upload addressed to this system and received while the
  vehicle is armed is rejected with an ERROR ack, and the stored mission list and the
  session counters are unchanged. A list-clear has no arming check in its handler:
  received while armed, it is handled and answered with an ACCEPTED ack.
\<close>

theorem item_rejected_while_armed:
  assumes "ARMED st"
  shows "(target_system msg = mavSystemId st \<longrightarrow>
           handleIncoming_MISSION_ITEM env msg st =
             (True, st\<lparr>sent := sent st @ [SEND_MISSION_ACK (sysid (mavRecvMsg st))
                          (compid (mavRecvMsg st)) MAV_MISSION_ERROR]\<rparr>))
       \<and> (target_system cmsg = mavSystemId st \<longrightarrow>
           fst (handleIncoming_MISSION_CLEAR_ALL cmsg st)
           \<and> sent (snd (handleIncoming_MISSION_CLEAR_ALL cmsg st)) =
               sent st @ [SEND_MISSION_ACK (sysid (mavRecvMsg st))
                            (compid (mavRecvMsg st)) MAV_MISSION_ACCEPTED])"
  using assms by (simp add: handler_defs)

text \<open>The amended C5 at an armed vehicle, for a waypoint item and for a list-clear.\<close>

theorem item_rejected_while_armed_witness:
  "ARMED (example_init\<lparr>ARMED := True\<rparr>)
   \<and> target_system (example_item 0 MAV_FRAME_GLOBAL_RELATIVE_ALT MAV_CMD_NAV_WAYPOINT)
       = mavSystemId (example_init\<lparr>ARMED := True\<rparr>)
   \<and> target_system example_clear_all = mavSystemId (example_init\<lparr>ARMED := True\<rparr>)
   \<and> handleIncoming_MISSION_ITEM example_env
        (example_item 0 MAV_FRAME_GLOBAL_RELATIVE_ALT MAV_CMD_NAV_WAYPOINT)
        (example_init\<lparr>ARMED := True\<rparr>)
      = (True, example_init\<lparr>ARMED := True, sent := [SEND_MISSION_ACK 0 0 MAV_MISSION_ERROR]\<rparr>)
   \<and> sent (snd (handleIncoming_MISSION_CLEAR_ALL example_clear_all (example_init\<lparr>ARMED := True\<rparr>)))
      = [SEND_MISSION_ACK 0 0 MAV_MISSION_ACCEPTED]"
proof -
  let ?st = "example_init\<lparr>ARMED := True\<rparr>"
  let ?msg = "example_item 0 MAV_FRAME_GLOBAL_RELATIVE_ALT MAV_CMD_NAV_WAYPOINT"
  have a: "ARMED ?st" by simp
  have b: "target_system ?msg = mavSystemId ?st" "target_system example_clear_all = mavSystemId ?st"
      "sent ?st = []" "sysid (mavRecvMsg ?st) = 0" "compid (mavRecvMsg ?st) = 0"
    by (simp_all add: example_defs)
  from item_rejected_while_armed
         [OF a, where msg = ?msg and cmsg = example_clear_all and env = example_env]
  show ?thesis
    using a b by simp
qed

text \<open>
  C5 as stated fails for the list-clear: received while armed, it is answered with
  ACCEPTED, not with ERROR.
\<close>

theorem clear_all_armed_counterexample:
  "ARMED (example_init\<lparr>ARMED := True\<rparr>)
   \<and> fst (handleIncoming_MISSION_CLEAR_ALL example_clear_all (example_init\<lparr>ARMED := True\<rparr>))
   \<and> sent (snd (handleIncoming_MISSION_CLEAR_ALL example_clear_all (example_init\<lparr>ARMED := True\<rparr>)))
      = [SEND_MISSION_ACK 0 0 MAV_MISSION_ACCEPTED]"
  by (simp add: example_defs handler_defs)

subsection \<open>Item upload\<close>

text \<open>
  An addressed, disarmed, supported item passes the three checks of the handler; what
  is left is the comparison of its sequence number with the one awaited.
\<close>

lemma item_checks_passed:
  assumes "target_system msg = mavSystemId st" "\<not> ARMED st" "item_supported msg"
  shows "handleIncoming_MISSION_ITEM env msg st =
     (if uint (seq msg) = incomingMissionWpSequence st then
          (let st1 = st\<lparr>incomingMissionWpSequence := incomingMissionWpSequence st + 1\<rparr>;
               wp = \<lparr> action = (if command msg = MAV_CMD_NAV_RETURN_TO_LAUNCH
                                then NAV_WP_ACTION_RTH else NAV_WP_ACTION_WAYPOINT),
                      lat = deg_to_e7 env (item_x msg),
                      lon = deg_to_e7 env (item_y msg),
                      alt = m_to_cm env (item_z msg),
                      p1 = 0, p2 = 0, p3 = 0,
                      flag = (if incomingMissionWpSequence st1 \<ge> incomingMissionWpCount st1
                              then NAV_WP_FLAG_LAST else 0) \<rparr>;
               st2 = st1\<lparr>waypointList :=
                           setWaypoint (NAV_MAX_WAYPOINTS env) (incomingMissionWpSequence st1)
                             wp (waypointList st1)\<rparr>
           in if incomingMissionWpSequence st2 \<ge> incomingMissionWpCount st2 then
                if isWaypointListValid env (waypointList st2)
                then (True, mission_ack MAV_MISSION_ACCEPTED st2)
                else (True, mission_ack MAV_MISSION_INVALID st2)
              else (True, mission_request st2))
        else (True, mission_ack MAV_MISSION_INVALID_SEQUENCE st))"
proof -
  have g: "\<not> (autocontinue msg = 0
          \<or> (command msg \<noteq> MAV_CMD_NAV_WAYPOINT
              \<and> command msg \<noteq> MAV_CMD_NAV_RETURN_TO_LAUNCH))"
      "\<not> (frame msg \<noteq> MAV_FRAME_GLOBAL_RELATIVE_ALT
          \<and> \<not> (frame msg = MAV_FRAME_MISSION
                 \<and> command msg = MAV_CMD_NAV_RETURN_TO_LAUNCH))"
    using assms(3) unfolding item_supported_def by blast+
  show ?thesis
    unfolding handleIncoming_MISSION_ITEM_def
    by (simp only: assms(1,2) g if_True if_False simp_thms)
qed

lemma item_wrong_sequence:
  assumes "target_system msg = mavSystemId st" "\<not> ARMED st" "item_supported msg"
    "uint (seq msg) \<noteq> incomingMissionWpSequence st"
  shows "handleIncoming_MISSION_ITEM env msg st =
           (True, st\<lparr>sent := sent st @ [SEND_MISSION_ACK (sysid (mavRecvMsg st))
                        (compid (mavRecvMsg st)) MAV_MISSION_INVALID_SEQUENCE]\<rparr>)"
  using assms(4)
  by (simp add: item_checks_passed [OF assms(1,2,3)] mission_ack_def mavlinkSendMessage_def)

lemma item_right_sequence:
  assumes "target_system msg = mavSystemId st" "\<not> ARMED st" "item_supported msg"
    "uint (seq msg) = incomingMissionWpSequence st"
  shows "handleIncoming_MISSION_ITEM env msg st =
           (let n = incomingMissionWpSequence st + 1;
                wps = setWaypoint (NAV_MAX_WAYPOINTS env) n
                        (item_waypoint env msg (n \<ge> incomingMissionWpCount st)) (waypointList st)
            in (True, st\<lparr>incomingMissionWpSequence := n, waypointList := wps,
                  sent := sent st @
                    [if n \<ge> incomingMissionWpCount st
                     then SEND_MISSION_ACK (sysid (mavRecvMsg st)) (compid (mavRecvMsg st))
                            (if isWaypointListValid env wps
                             then MAV_MISSION_ACCEPTED else MAV_MISSION_INVALID)
                     else SEND_MISSION_REQUEST (sysid (mavRecvMsg st)) (compid (mavRecvMsg st))
                            (word_of_int n)]\<rparr>))"
  using assms(4)
  by (simp add: item_checks_passed [OF assms(1,2,3)] mission_ack_def mission_request_def
        mavlinkSendMessage_def item_waypoint_def Let_def)

text \<open>
  C8: for every session awaiting sequence \<open>s\<close> (in progress or not), an addressed,
  disarmed, supported item with \<open>seq \<noteq> s\<close> is handled and answered with an
  INVALID_SEQUENCE ack, and nothing else changes: \<^verbatim>\<open>incomingMissionWpSequence\<close>,
  \<^verbatim>\<open>incomingMissionWpCount\<close> and the stored list are as before. An item with \<open>seq = s\<close>
  submitted afterwards is accepted: it is handed to \<open>setWaypoint\<close> as waypoint \<open>s + 1\<close>,
  the awaited sequence becomes \<open>s + 1\<close>, and it is answered with a request for item
  \<open>s + 1\<close> or, when it completes the count, with the ACCEPTED or INVALID ack.
\<close>

theorem wrong_sequence_then_retry:
  assumes bad: "target_system msg = mavSystemId st" "item_supported msg"
      "uint (seq msg) \<noteq> incomingMissionWpSequence st"
    and good: "target_system retry = mavSystemId st" "item_supported retry"
      "uint (seq retry) = incomingMissionWpSequence st"
    and disarmed: "\<not> ARMED st"
  shows "handleIncoming_MISSION_ITEM env msg st =
           (True, st\<lparr>sent := sent st @ [SEND_MISSION_ACK (sysid (mavRecvMsg st))
                        (compid (mavRecvMsg st)) MAV_MISSION_INVALID_SEQUENCE]\<rparr>)
       \<and> handleIncoming_MISSION_ITEM env retry
           (st\<lparr>sent := sent st @ [SEND_MISSION_ACK (sysid (mavRecvMsg st))
                        (compid (mavRecvMsg st)) MAV_MISSION_INVALID_SEQUENCE]\<rparr>) =
           (let n = incomingMissionWpSequence st + 1;
                wps = setWaypoint (NAV_MAX_WAYPOINTS env) n
                        (item_waypoint env retry (n \<ge> incomingMissionWpCount st)) (waypointList st)
            in (True, st\<lparr>incomingMissionWpSequence := n, waypointList := wps,
                  sent := sent st @
                    [SEND_MISSION_ACK (sysid (mavRecvMsg st)) (compid (mavRecvMsg st))
                       MAV_MISSION_INVALID_SEQUENCE,
                     if n \<ge> incomingMissionWpCount st
                     then SEND_MISSION_ACK (sysid (mavRecvMsg st)) (compid (mavRecvMsg st))
                            (if isWaypointListValid env wps
                             then MAV_MISSION_ACCEPTED else MAV_MISSION_INVALID)
                     else SEND_MISSION_REQUEST (sysid (mavRecvMsg st)) (compid (mavRecvMsg st))
                            (word_of_int n)]\<rparr>))"
proof -
  let ?st1 = "st\<lparr>sent := sent st @ [SEND_MISSION_ACK (sysid (mavRecvMsg st))
                        (compid (mavRecvMsg st)) MAV_MISSION_INVALID_SEQUENCE]\<rparr>"
  have first: "handleIncoming_MISSION_ITEM env msg st = (True, ?st1)"
    by (rule item_wrong_sequence [OF bad(1) disarmed bad(2,3)])
  have second: "target_system retry = mavSystemId ?st1" "\<not> ARMED ?st1"
      "uint (seq retry) = incomingMissionWpSequence ?st1"
    using good disarmed by simp_all
  show ?thesis
    unfolding first
    by (simp add: item_right_sequence [OF second(1,2) good(2) second(3)] Let_def)
qed

text \<open>C8 in a session of three items that awaits item 1 and receives item 2 first.\<close>

theorem wrong_sequence_then_retry_witness:
  "target_system (example_item 2 MAV_FRAME_GLOBAL_RELATIVE_ALT MAV_CMD_NAV_WAYPOINT)
      = mavSystemId (example_init\<lparr>incomingMissionWpCount := 3, incomingMissionWpSequence := 1\<rparr>)
   \<and> item_supported (example_item 2 MAV_FRAME_GLOBAL_RELATIVE_ALT MAV_CMD_NAV_WAYPOINT)
   \<and> item_supported (example_item 1 MAV_FRAME_GLOBAL_RELATIVE_ALT MAV_CMD_NAV_WAYPOINT)
   \<and> \<not> ARMED (example_init\<lparr>incomingMissionWpCount := 3, incomingMissionWpSequence := 1\<rparr>)
   \<and> handleIncoming_MISSION_ITEM example_env
        (example_item 2 MAV_FRAME_GLOBAL_RELATIVE_ALT MAV_CMD_NAV_WAYPOINT)
        (example_init\<lparr>incomingMissionWpCount := 3, incomingMissionWpSequence := 1\<rparr>)
      = (True, example_init\<lparr>incomingMissionWpCount := 3, incomingMissionWpSequence := 1,
                 sent := [SEND_MISSION_ACK 0 0 MAV_MISSION_INVALID_SEQUENCE]\<rparr>)
   \<and> incomingMissionWpSequence (snd (handleIncoming_MISSION_ITEM example_env
        (example_item 1 MAV_FRAME_GLOBAL_RELATIVE_ALT MAV_CMD_NAV_WAYPOINT)
        (example_init\<lparr>incomingMissionWpCount := 3, incomingMissionWpSequence := 1,
                       sent := [SEND_MISSION_ACK 0 0 MAV_MISSION_INVALID_SEQUENCE]\<rparr>))) = 2
   \<and> sent (snd (handleIncoming_MISSION_ITEM example_env
        (example_item 1 MAV_FRAME_GLOBAL_RELATIVE_ALT MAV_CMD_NAV_WAYPOINT)
        (example_init\<lparr>incomingMissionWpCount := 3, incomingMissionWpSequence := 1,
                       sent := [SEND_MISSION_ACK 0 0 MAV_MISSION_INVALID_SEQUENCE]\<rparr>)))
      = [SEND_MISSION_ACK 0 0 MAV_MISSION_INVALID_SEQUENCE, SEND_MISSION_REQUEST 0 0 2]"
proof -
  let ?st = "example_init\<lparr>incomingMissionWpCount := 3, incomingMissionWpSequence := 1\<rparr>"
  let ?bad = "example_item 2 MAV_FRAME_GLOBAL_RELATIVE_ALT MAV_CMD_NAV_WAYPOINT"
  let ?good = "example_item 1 MAV_FRAME_GLOBAL_RELATIVE_ALT MAV_CMD_NAV_WAYPOINT"
  have a: "target_system ?bad = mavSystemId ?st" "item_supported ?bad"
      "uint (seq ?bad) \<noteq> incomingMissionWpSequence ?st"
      "target_system ?good = mavSystemId ?st" "item_supported ?good"
      "uint (seq ?good) = incomingMissionWpSequence ?st" "\<not> ARMED ?st"
    by (simp_all add: example_defs item_supported_def const_defs)
  have b: "sent ?st = []" "sysid (mavRecvMsg ?st) = 0" "compid (mavRecvMsg ?st) = 0"
      "incomingMissionWpCount ?st = 3" "incomingMissionWpSequence ?st = 1"
    by (simp_all add: example_defs)
  from wrong_sequence_then_retry [where env = example_env, OF a]
  show ?thesis
    using a b by (simp add: Let_def)
qed

text \<open>
  C10: with both session counters at zero, an addressed, disarmed, supported item with
  \<open>seq = 0\<close> is handled and accepted. The list becomes the one waypoint of the item,
  flagged end-of-list, the awaited sequence becomes 1, the validation runs on that list
  and its result is sent as an ACCEPTED or INVALID ack. (The list holds at least one
  waypoint: \<open>1 \<le> NAV_MAX_WAYPOINTS\<close>.)
\<close>

theorem item_without_announcement:
  assumes "incomingMissionWpCount st = 0" "incomingMissionWpSequence st = 0"
    and "target_system msg = mavSystemId st" "\<not> ARMED st" "item_supported msg" "seq msg = 0"
    and "1 \<le> NAV_MAX_WAYPOINTS env"
  shows "handleIncoming_MISSION_ITEM env msg st =
           (True, st\<lparr>incomingMissionWpSequence := 1,
                     waypointList := [item_waypoint env msg True],
                     sent := sent st @
                       [SEND_MISSION_ACK (sysid (mavRecvMsg st)) (compid (mavRecvMsg st))
                          (if isWaypointListValid env [item_waypoint env msg True]
                           then MAV_MISSION_ACCEPTED else MAV_MISSION_INVALID)]\<rparr>)
         \<and> flag (item_waypoint env msg True) = NAV_WP_FLAG_LAST"
proof -
  have s: "uint (seq msg) = incomingMissionWpSequence st"
    using assms(2,6) by simp
  show ?thesis
    using assms(1,2,7)
    by (simp add: item_right_sequence [OF assms(3,4,5) s] Let_def setWaypoint_def
          item_waypoint_def)
qed

text \<open>C10 at the state after start-up.\<close>

theorem item_without_announcement_witness:
  "incomingMissionWpCount example_init = 0 \<and> incomingMissionWpSequence example_init = 0
   \<and> target_system (example_item 0 MAV_FRAME_GLOBAL_RELATIVE_ALT MAV_CMD_NAV_WAYPOINT)
       = mavSystemId example_init
   \<and> \<not> ARMED example_init
   \<and> item_supported (example_item 0 MAV_FRAME_GLOBAL_RELATIVE_ALT MAV_CMD_NAV_WAYPOINT)
   \<and> seq (example_item 0 MAV_FRAME_GLOBAL_RELATIVE_ALT MAV_CMD_NAV_WAYPOINT) = 0
   \<and> 1 \<le> NAV_MAX_WAYPOINTS example_env
   \<and> handleIncoming_MISSION_ITEM example_env
        (example_item 0 MAV_FRAME_GLOBAL_RELATIVE_ALT MAV_CMD_NAV_WAYPOINT) example_init
      = (True, example_init\<lparr>incomingMissionWpSequence := 1,
           waypointList := [\<lparr> action = NAV_WP_ACTION_WAYPOINT, lat = 470000000, lon = 80000000,
                              alt = 12000, p1 = 0, p2 = 0, p3 = 0, flag = NAV_WP_FLAG_LAST \<rparr>],
           sent := [SEND_MISSION_ACK 0 0 MAV_MISSION_ACCEPTED]\<rparr>)"
proof -
  let ?msg = "example_item 0 MAV_FRAME_GLOBAL_RELATIVE_ALT MAV_CMD_NAV_WAYPOINT"
  have a: "incomingMissionWpCount example_init = 0" "incomingMissionWpSequence example_init = 0"
      "target_system ?msg = mavSystemId example_init" "\<not> ARMED example_init"
      "item_supported ?msg" "seq ?msg = 0" "1 \<le> NAV_MAX_WAYPOINTS example_env"
    by (simp_all add: example_defs item_supported_def const_defs)
  have b: "sent example_init = []" "sysid (mavRecvMsg example_init) = 0"
      "compid (mavRecvMsg example_init) = 0"
      "item_waypoint example_env ?msg True =
         \<lparr> action = NAV_WP_ACTION_WAYPOINT, lat = 470000000, lon = 80000000,
           alt = 12000, p1 = 0, p2 = 0, p3 = 0, flag = NAV_WP_FLAG_LAST \<rparr>"
      "isWaypointListValid example_env [item_waypoint example_env ?msg True]"
    by (simp_all add: example_defs item_waypoint_def const_defs)
  from item_without_announcement [OF a]
  show ?thesis
    using a b by simp
qed

subsection \<open>Upload of a whole list\<close>

lemma upload_items_snoc:
  "upload_items env (items @ [msg]) st =
     snd (handleIncoming_MISSION_ITEM env msg (upload_items env items st))"
  by (simp add: upload_items_def)

lemma upload_prefix:
  fixes st :: "('f, 'ps) telemetry"
  assumes start: "incomingMissionWpCount st = int (length items)"
      "incomingMissionWpSequence st = 0" "\<not> ARMED st"
      "int (length items) \<le> NAV_MAX_WAYPOINTS env"
    and items: "\<forall>i<length items. target_system (items ! i) = mavSystemId st
                  \<and> item_supported (items ! i) \<and> uint (seq (items ! i)) = int i"
    and k: "k < length items"
  shows "upload_items env (take k items) st =
           st\<lparr>incomingMissionWpSequence := int k,
              waypointList := (if k = 0 then waypointList st else uploaded_waypoints env items k),
              sent := sent st @ map (\<lambda>i. SEND_MISSION_REQUEST (sysid (mavRecvMsg st))
                                          (compid (mavRecvMsg st)) (word_of_int (int i)))
                                  [1..<Suc k]\<rparr>"
  using k
proof (induction k)
  case 0
  then show ?case using start by (simp add: upload_items_def)
next
  case (Suc k)
  let ?req = "\<lambda>i. SEND_MISSION_REQUEST (sysid (mavRecvMsg st)) (compid (mavRecvMsg st))
                 (word_of_int (int i)) :: 'f mav_sent"
  let ?sk = "st\<lparr>incomingMissionWpSequence := int k,
              waypointList := (if k = 0 then waypointList st else uploaded_waypoints env items k),
              sent := sent st @ map ?req [1..<Suc k]\<rparr>"
  have k: "k < length items" using Suc.prems by simp
  have IH: "upload_items env (take k items) st = ?sk"
    using Suc.IH k by simp
  have tk: "take (Suc k) items = take k items @ [items ! k]"
    using k by (simp add: take_Suc_conv_app_nth)
  have it: "target_system (items ! k) = mavSystemId ?sk" "\<not> ARMED ?sk"
      "item_supported (items ! k)" "uint (seq (items ! k)) = incomingMissionWpSequence ?sk"
    using items k start by simp_all
  have len: "length (waypointList ?sk) = k \<or> k = 0"
    by (simp add: uploaded_waypoints_def)
  have notlast: "\<not> (int k + 1 \<ge> int (length items))" "Suc k \<noteq> length items"
    using Suc.prems by simp_all
  have store0: "setWaypoint (NAV_MAX_WAYPOINTS env) 1 w ws = [w]" for w ws
    using start(4) Suc.prems by (simp add: setWaypoint_def)
  have storek: "setWaypoint (NAV_MAX_WAYPOINTS env) (1 + int k) w (uploaded_waypoints env items k)
                  = uploaded_waypoints env items k @ [w]" for w
    using start(4) Suc.prems by (simp add: setWaypoint_def uploaded_waypoints_def)
  have wps: "uploaded_waypoints env items (Suc k)
               = uploaded_waypoints env items k @ [item_waypoint env (items ! k) False]"
    using notlast by (simp add: uploaded_waypoints_def)
  have wps0: "uploaded_waypoints env items 0 = []"
    by (simp add: uploaded_waypoints_def)
  have step: "snd (handleIncoming_MISSION_ITEM env (items ! k) ?sk) =
           st\<lparr>incomingMissionWpSequence := int (Suc k),
              waypointList := (if Suc k = 0 then waypointList st
                               else uploaded_waypoints env items (Suc k)),
              sent := sent st @ map ?req [1..<Suc (Suc k)]\<rparr>"
    unfolding item_right_sequence [OF it]
    using notlast start(1)
    by (auto simp add: Let_def store0 storek wps wps0 add.commute)
  show ?case
    unfolding tk upload_items_snoc IH by (rule step)
qed


lemma upload_complete:
  fixes st :: "('f, 'ps) telemetry"
  assumes start: "incomingMissionWpCount st = int (length items)"
      "incomingMissionWpSequence st = 0" "\<not> ARMED st"
      "int (length items) \<le> NAV_MAX_WAYPOINTS env"
    and items: "\<forall>i<length items. target_system (items ! i) = mavSystemId st
                  \<and> item_supported (items ! i) \<and> uint (seq (items ! i)) = int i"
    and nonempty: "items \<noteq> []"
  shows "upload_items env items st =
           st\<lparr>incomingMissionWpSequence := int (length items),
              waypointList := uploaded_waypoints env items (length items),
              sent := sent st
                @ map (\<lambda>i. SEND_MISSION_REQUEST (sysid (mavRecvMsg st))
                              (compid (mavRecvMsg st)) (word_of_int (int i)))
                      [1..<length items]
                @ [SEND_MISSION_ACK (sysid (mavRecvMsg st)) (compid (mavRecvMsg st))
                     (if isWaypointListValid env (uploaded_waypoints env items (length items))
                      then MAV_MISSION_ACCEPTED else MAV_MISSION_INVALID)]\<rparr>"
proof -
  obtain k where k: "length items = Suc k"
    using nonempty by (cases items) simp_all
  let ?req = "\<lambda>i. SEND_MISSION_REQUEST (sysid (mavRecvMsg st)) (compid (mavRecvMsg st))
                 (word_of_int (int i)) :: 'f mav_sent"
  let ?sk = "st\<lparr>incomingMissionWpSequence := int k,
              waypointList := (if k = 0 then waypointList st else uploaded_waypoints env items k),
              sent := sent st @ map ?req [1..<Suc k]\<rparr>"
  have kl: "k < length items" using k by simp
  have pre: "upload_items env (take k items) st = ?sk"
    by (rule upload_prefix [OF start items kl])
  have all: "items = take k items @ [items ! k]"
    using k by (metis lessI order_refl take_Suc_conv_app_nth take_all)
  have it: "target_system (items ! k) = mavSystemId ?sk" "\<not> ARMED ?sk"
      "item_supported (items ! k)" "uint (seq (items ! k)) = incomingMissionWpSequence ?sk"
    using items kl start by simp_all
  have store0: "setWaypoint (NAV_MAX_WAYPOINTS env) 1 w ws = [w]" for w ws
    using start(4) k by (simp add: setWaypoint_def)
  have storek: "setWaypoint (NAV_MAX_WAYPOINTS env) (1 + int k) w (uploaded_waypoints env items k)
                  = uploaded_waypoints env items k @ [w]" for w
    using start(4) k by (simp add: setWaypoint_def uploaded_waypoints_def)
  have wps: "uploaded_waypoints env items (Suc k)
               = uploaded_waypoints env items k @ [item_waypoint env (items ! k) True]"
    using k by (simp add: uploaded_waypoints_def)
  have wps0: "uploaded_waypoints env items 0 = []"
    by (simp add: uploaded_waypoints_def)
  have step: "snd (handleIncoming_MISSION_ITEM env (items ! k) ?sk) =
           st\<lparr>incomingMissionWpSequence := int (Suc k),
              waypointList := uploaded_waypoints env items (Suc k),
              sent := sent st @ map ?req [1..<Suc k]
                @ [SEND_MISSION_ACK (sysid (mavRecvMsg st)) (compid (mavRecvMsg st))
                     (if isWaypointListValid env (uploaded_waypoints env items (Suc k))
                      then MAV_MISSION_ACCEPTED else MAV_MISSION_INVALID)]\<rparr>"
    unfolding item_right_sequence [OF it]
    using start(1) k
    by (auto simp add: Let_def store0 storek wps wps0 add.commute)
  have "upload_items env items st = snd (handleIncoming_MISSION_ITEM env (items ! k) ?sk)"
    using upload_items_snoc [of env "take k items" "items ! k" st] all pre by simp
  then show ?thesis
    unfolding step k .
qed

lemma uploaded_waypoints_last:
  assumes "items \<noteq> []"
  shows "length (uploaded_waypoints env items (length items)) = length items"
    and "flag (last (uploaded_waypoints env items (length items))) = NAV_WP_FLAG_LAST"
proof -
  show "length (uploaded_waypoints env items (length items)) = length items"
    by (simp add: uploaded_waypoints_def)
  obtain k where k: "length items = Suc k"
    using assms by (cases items) simp_all
  show "flag (last (uploaded_waypoints env items (length items))) = NAV_WP_FLAG_LAST"
    unfolding k by (simp add: uploaded_waypoints_def k item_waypoint_def)
qed

text \<open>
  C1: for every \<open>N\<close> with \<open>0 < N \<le> NAV_MAX_WAYPOINTS\<close>, after a count announcement of
  \<open>N\<close> addressed to this system, the upload of \<open>N\<close> addressed, supported items with the
  sequence numbers \<open>0, \<dots>, N - 1\<close> in this order, the vehicle disarmed, leaves a stored
  list of length \<open>N\<close> (the waypoints of the items) whose last entry carries the
  end-of-list flag. The items before the last are answered with the requests for
  the items \<open>1, \<dots>, N - 1\<close>, in this order, and the last item with an ACCEPTED ack if
  the list passes validation and an INVALID ack otherwise. The session is then
  complete: the awaited sequence number has reached the expected count \<open>N\<close>.
\<close>

theorem upload_in_sequence:
  fixes st :: "('f, 'ps) telemetry"
  assumes announce: "target_system cmsg = mavSystemId st"
      "0 < uint (count cmsg)" "uint (count cmsg) \<le> NAV_MAX_WAYPOINTS env"
    and disarmed: "\<not> ARMED st"
    and items: "int (length items) = uint (count cmsg)"
      "\<forall>i<length items. target_system (items ! i) = mavSystemId st
          \<and> item_supported (items ! i) \<and> uint (seq (items ! i)) = int i"
  shows "let st1 = snd (handleIncoming_MISSION_COUNT env cmsg st);
             st2 = upload_items env items st1
         in length (waypointList st2) = length items
            \<and> flag (last (waypointList st2)) = NAV_WP_FLAG_LAST
            \<and> waypointList st2 = uploaded_waypoints env items (length items)
            \<and> sent st2 = sent st1
                @ map (\<lambda>i. SEND_MISSION_REQUEST (sysid (mavRecvMsg st))
                              (compid (mavRecvMsg st)) (word_of_int (int i)))
                      [1..<length items]
                @ [SEND_MISSION_ACK (sysid (mavRecvMsg st)) (compid (mavRecvMsg st))
                     (if isWaypointListValid env (waypointList st2)
                      then MAV_MISSION_ACCEPTED else MAV_MISSION_INVALID)]
            \<and> incomingMissionWpSequence st2 = int (length items)
            \<and> incomingMissionWpCount st2 = int (length items)"
proof -
  let ?st1 = "st\<lparr>incomingMissionWpCount := uint (count cmsg), incomingMissionWpSequence := 0,
                  sent := sent st @ [SEND_MISSION_REQUEST (sysid (mavRecvMsg st))
                                       (compid (mavRecvMsg st)) 0]\<rparr>"
  have st1: "snd (handleIncoming_MISSION_COUNT env cmsg st) = ?st1"
    using announce by (simp add: handleIncoming_MISSION_COUNT_def mission_request_def
        mavlinkSendMessage_def)
  have nonempty: "items \<noteq> []"
    using items(1) announce(2) by auto
  have start: "incomingMissionWpCount ?st1 = int (length items)"
      "incomingMissionWpSequence ?st1 = 0" "\<not> ARMED ?st1"
      "int (length items) \<le> NAV_MAX_WAYPOINTS env"
    using items(1) announce(3) disarmed by simp_all
  have its: "\<forall>i<length items. target_system (items ! i) = mavSystemId ?st1
                  \<and> item_supported (items ! i) \<and> uint (seq (items ! i)) = int i"
    using items(2) by simp
  note fin = upload_complete [OF start its nonempty]
  show ?thesis
    unfolding st1 Let_def fin
    using uploaded_waypoints_last [OF nonempty, of env] items(1)
    by simp
qed

text \<open>C1 for an upload of a waypoint and a return-to-launch item.\<close>

theorem upload_in_sequence_witness:
  "target_system (example_count 2) = mavSystemId example_init
   \<and> 0 < uint (count (example_count 2))
   \<and> uint (count (example_count 2)) \<le> NAV_MAX_WAYPOINTS example_env
   \<and> \<not> ARMED example_init
   \<and> int (length [example_item 0 MAV_FRAME_GLOBAL_RELATIVE_ALT MAV_CMD_NAV_WAYPOINT,
                   example_item 1 MAV_FRAME_MISSION MAV_CMD_NAV_RETURN_TO_LAUNCH])
       = uint (count (example_count 2))
   \<and> item_supported (example_item 0 MAV_FRAME_GLOBAL_RELATIVE_ALT MAV_CMD_NAV_WAYPOINT)
   \<and> item_supported (example_item 1 MAV_FRAME_MISSION MAV_CMD_NAV_RETURN_TO_LAUNCH)
   \<and> target_system (example_item 0 MAV_FRAME_GLOBAL_RELATIVE_ALT MAV_CMD_NAV_WAYPOINT)
       = mavSystemId example_init
   \<and> target_system (example_item 1 MAV_FRAME_MISSION MAV_CMD_NAV_RETURN_TO_LAUNCH)
       = mavSystemId example_init
   \<and> uint (seq (example_item 0 MAV_FRAME_GLOBAL_RELATIVE_ALT MAV_CMD_NAV_WAYPOINT)) = 0
   \<and> uint (seq (example_item 1 MAV_FRAME_MISSION MAV_CMD_NAV_RETURN_TO_LAUNCH)) = 1
   \<and> waypointList (upload_items example_env
         [example_item 0 MAV_FRAME_GLOBAL_RELATIVE_ALT MAV_CMD_NAV_WAYPOINT,
          example_item 1 MAV_FRAME_MISSION MAV_CMD_NAV_RETURN_TO_LAUNCH]
         (snd (handleIncoming_MISSION_COUNT example_env (example_count 2) example_init)))
       = [\<lparr> action = NAV_WP_ACTION_WAYPOINT, lat = 470000000, lon = 80000000,
            alt = 12000, p1 = 0, p2 = 0, p3 = 0, flag = 0 \<rparr>,
          \<lparr> action = NAV_WP_ACTION_RTH, lat = 470000000, lon = 80000000,
            alt = 12000, p1 = 0, p2 = 0, p3 = 0, flag = NAV_WP_FLAG_LAST \<rparr>]
   \<and> sent (upload_items example_env
         [example_item 0 MAV_FRAME_GLOBAL_RELATIVE_ALT MAV_CMD_NAV_WAYPOINT,
          example_item 1 MAV_FRAME_MISSION MAV_CMD_NAV_RETURN_TO_LAUNCH]
         (snd (handleIncoming_MISSION_COUNT example_env (example_count 2) example_init)))
       = [SEND_MISSION_REQUEST 0 0 0, SEND_MISSION_REQUEST 0 0 1,
          SEND_MISSION_ACK 0 0 MAV_MISSION_ACCEPTED]"
proof -
  let ?items = "[example_item 0 MAV_FRAME_GLOBAL_RELATIVE_ALT MAV_CMD_NAV_WAYPOINT,
                 example_item 1 MAV_FRAME_MISSION MAV_CMD_NAV_RETURN_TO_LAUNCH]"
  have a: "target_system (example_count 2) = mavSystemId example_init"
      "0 < uint (count (example_count 2))"
      "uint (count (example_count 2)) \<le> NAV_MAX_WAYPOINTS example_env"
    by (simp_all add: example_defs example_count_def)
  have b: "\<not> ARMED example_init"
    by (simp add: example_defs example_count_def)
  have s: "item_supported (example_item 0 MAV_FRAME_GLOBAL_RELATIVE_ALT MAV_CMD_NAV_WAYPOINT)"
      "item_supported (example_item 1 MAV_FRAME_MISSION MAV_CMD_NAV_RETURN_TO_LAUNCH)"
      "target_system (example_item 0 MAV_FRAME_GLOBAL_RELATIVE_ALT MAV_CMD_NAV_WAYPOINT)
         = mavSystemId example_init"
      "target_system (example_item 1 MAV_FRAME_MISSION MAV_CMD_NAV_RETURN_TO_LAUNCH)
         = mavSystemId example_init"
      "uint (seq (example_item 0 MAV_FRAME_GLOBAL_RELATIVE_ALT MAV_CMD_NAV_WAYPOINT)) = 0"
      "uint (seq (example_item 1 MAV_FRAME_MISSION MAV_CMD_NAV_RETURN_TO_LAUNCH)) = 1"
    by (simp_all add: example_defs example_count_def item_supported_def const_defs)
  have c: "int (length ?items) = uint (count (example_count 2))"
      "\<forall>i<length ?items. target_system (?items ! i) = mavSystemId example_init
          \<and> item_supported (?items ! i) \<and> uint (seq (?items ! i)) = int i"
    using s by (simp_all add: example_defs example_count_def less_Suc_eq)
  have d: "snd (handleIncoming_MISSION_COUNT example_env (example_count 2) example_init)
             = example_init\<lparr>incomingMissionWpCount := 2,
                             sent := [SEND_MISSION_REQUEST 0 0 0]\<rparr>"
    by (simp add: example_defs example_count_def handleIncoming_MISSION_COUNT_def
        mission_request_def
        mavlinkSendMessage_def)
  have e: "uploaded_waypoints example_env ?items (length ?items)
             = [\<lparr> action = NAV_WP_ACTION_WAYPOINT, lat = 470000000, lon = 80000000,
                  alt = 12000, p1 = 0, p2 = 0, p3 = 0, flag = 0 \<rparr>,
                \<lparr> action = NAV_WP_ACTION_RTH, lat = 470000000, lon = 80000000,
                  alt = 12000, p1 = 0, p2 = 0, p3 = 0, flag = NAV_WP_FLAG_LAST \<rparr>]"
    by (simp add: uploaded_waypoints_def item_waypoint_def example_defs example_count_def
          const_defs)
  have f: "sysid (mavRecvMsg example_init) = 0" "compid (mavRecvMsg example_init) = 0"
      "isWaypointListValid example_env
         [\<lparr> action = NAV_WP_ACTION_WAYPOINT, lat = 470000000, lon = 80000000,
            alt = 12000, p1 = 0, p2 = 0, p3 = 0, flag = 0 \<rparr>,
          \<lparr> action = NAV_WP_ACTION_RTH, lat = 470000000, lon = 80000000,
            alt = 12000, p1 = 0, p2 = 0, p3 = 0, flag = NAV_WP_FLAG_LAST \<rparr>]"
    by (simp_all add: example_defs example_count_def)
  from upload_in_sequence [OF a b c]
  show ?thesis
    using a b c(1) s d e f by (simp add: Let_def)
qed

subsection \<open>Inbound decoder\<close>

lemma getWaypoint_in_range:
  assumes "uint w < getWaypointCount wps"
  shows "getWaypoint (uint w + 1) wps = Some (wps ! unat w)"
proof -
  have "nat (uint w) = unat w"
    by simp
  then show ?thesis
    using assms by (simp add: getWaypoint_def getWaypointCount_def)
qed

lemma effect_clear_all: "handler_effect st (handleIncoming_MISSION_CLEAR_ALL msg st)"
  by (simp add: handler_effect_def handler_defs is_stream_def)

lemma effect_count: "handler_effect st (handleIncoming_MISSION_COUNT env msg st)"
  by (simp add: handler_effect_def handler_defs is_stream_def)

lemma effect_item: "handler_effect st (handleIncoming_MISSION_ITEM env msg st)"
  by (simp add: handler_effect_def handler_defs is_stream_def Let_def)

lemma effect_request_list: "handler_effect st (handleIncoming_MISSION_REQUEST_LIST msg st)"
  by (simp add: handler_effect_def handler_defs is_stream_def)

lemma effect_request: "handler_effect st (handleIncoming_MISSION_REQUEST env msg st)"
  by (simp add: handler_effect_def handler_defs is_stream_def Let_def split: option.split)

lemma effect_switch:
  assumes "msgid_switch env st = Some r"
  shows "handler_effect st r"
proof (cases "payload (mavRecvMsg st)")
  case HEARTBEAT
  then show ?thesis using assms by (simp add: msgid_switch_def)
next
  case (MISSION_CLEAR_ALL msg)
  then show ?thesis using assms effect_clear_all [of st msg] by (simp add: msgid_switch_def)
next
  case (MISSION_COUNT msg)
  then show ?thesis using assms effect_count [of st env msg] by (simp add: msgid_switch_def)
next
  case (MISSION_ITEM msg)
  then show ?thesis using assms effect_item [of st env msg] by (simp add: msgid_switch_def)
next
  case (MISSION_REQUEST_LIST msg)
  then show ?thesis using assms effect_request_list [of st msg] by (simp add: msgid_switch_def)
next
  case (MISSION_REQUEST msg)
  then show ?thesis using assms effect_request [of st env msg] by (simp add: msgid_switch_def)
next
  case (OTHER_MSG x)
  then show ?thesis using assms by (auto simp add: msgid_switch_def handler_effect_def)
qed

lemma switch_handled:
  assumes "msgid_switch env st = Some r" "fst r"
  shows "mission_target (payload (mavRecvMsg st)) = Some (mavSystemId st)"
  using assms
  by (cases "payload (mavRecvMsg st)")
     (auto simp add: msgid_switch_def mission_target_def handler_defs Let_def
           split: if_splits option.splits)

lemma switch_not_heartbeat:
  "msgid_switch env st = Some r \<Longrightarrow> payload (mavRecvMsg st) \<noteq> HEARTBEAT"
  by (auto simp add: msgid_switch_def)

lemma incoming_loop_effect:
  "mavlinkPort st = Some waiting \<Longrightarrow> decoder_effect waiting st (incoming_loop env waiting st)"
proof (induction waiting arbitrary: st)
  case Nil
  then show ?case
    by (simp add: decoder_effect_def)
next
  case (Cons c waiting)
  obtain result msg status where
    p: "mavlink_parse_char env c (mavRecvMsg st) (mavRecvStatus st) = (result, msg, status)"
    by (cases "mavlink_parse_char env c (mavRecvMsg st) (mavRecvStatus st)") auto
  let ?st1 = "st\<lparr>mavlinkPort := Some waiting, mavRecvMsg := msg, mavRecvStatus := status\<rparr>"
  have port1: "mavlinkPort ?st1 = Some waiting" by simp
  note IH = Cons.IH [OF port1]
  have continue: "decoder_effect (c # waiting) st (incoming_loop env waiting ?st1)"
  proof -
    from IH obtain n where n: "n \<le> length waiting"
        "mavlinkPort (snd (incoming_loop env waiting ?st1)) = Some (drop n waiting)"
      unfolding decoder_effect_def by blast
    have "Suc n \<le> length (c # waiting)
          \<and> mavlinkPort (snd (incoming_loop env waiting ?st1)) = Some (drop (Suc n) (c # waiting))"
      using n by simp
    then have "\<exists>m\<le>length (c # waiting).
          mavlinkPort (snd (incoming_loop env waiting ?st1)) = Some (drop m (c # waiting))"
      by blast
    then show ?thesis
      using IH unfolding decoder_effect_def by simp
  qed
  show ?case
  proof (cases "result = MAVLINK_FRAMING_OK")
    case False
    then show ?thesis using p continue by (simp add: Let_def)
  next
    case True
    show ?thesis
    proof (cases "msgid_switch env ?st1")
      case None
      then show ?thesis using p True continue by (simp add: Let_def)
    next
      case (Some r)
      have e: "handler_effect ?st1 r" by (rule effect_switch [OF Some])
      have h: "fst r \<longrightarrow> mission_target (payload (mavRecvMsg ?st1)) = Some (mavSystemId ?st1)"
        using switch_handled [OF Some] by blast
      have nh: "payload (mavRecvMsg ?st1) \<noteq> HEARTBEAT"
        by (rule switch_not_heartbeat [OF Some])
      have "Suc 0 \<le> length (c # waiting)
            \<and> mavlinkPort (snd r) = Some (drop (Suc 0) (c # waiting))"
        using e by (simp add: handler_effect_def)
      then have "\<exists>m\<le>length (c # waiting). mavlinkPort (snd r) = Some (drop m (c # waiting))"
        by blast
      then have "decoder_effect (c # waiting) st r"
        using e h nh unfolding decoder_effect_def handler_effect_def by simp
      then show ?thesis using p True Some by (simp add: Let_def)
    qed
  qed
qed

lemma switch_heartbeat:
  "payload (mavRecvMsg st) = HEARTBEAT \<Longrightarrow> msgid_switch env st = None"
  by (simp add: msgid_switch_def)

lemma switch_other:
  "payload (mavRecvMsg st) = OTHER_MSG i \<Longrightarrow> msgid_switch env st = Some (False, st)"
  by (simp add: msgid_switch_def)

lemma switch_returns:
  "payload (mavRecvMsg st) \<noteq> HEARTBEAT \<Longrightarrow> \<exists>r. msgid_switch env st = Some r"
  by (cases "payload (mavRecvMsg st)") (auto simp add: msgid_switch_def)

lemma loop_only_heartbeats:
  assumes "mavlinkPort st = Some bytes"
    and "list_all (\<lambda>m. payload m = HEARTBEAT)
           (frames_of env bytes (mavRecvMsg st) (mavRecvStatus st))"
  shows "incoming_loop env bytes st =
           (False, st\<lparr>mavlinkPort := Some [],
              mavRecvMsg := fst (parser_after env bytes (mavRecvMsg st) (mavRecvStatus st)),
              mavRecvStatus := snd (parser_after env bytes (mavRecvMsg st) (mavRecvStatus st))\<rparr>)"
  using assms
proof (induction bytes arbitrary: st)
  case Nil
  have "st\<lparr>mavlinkPort := mavlinkPort st\<rparr> = st" by simp
  then show ?case using Nil.prems(1) by simp
next
  case (Cons c bytes)
  obtain result msg status where
    p: "mavlink_parse_char env c (mavRecvMsg st) (mavRecvStatus st) = (result, msg, status)"
    by (cases "mavlink_parse_char env c (mavRecvMsg st) (mavRecvStatus st)") auto
  let ?st1 = "st\<lparr>mavlinkPort := Some bytes, mavRecvMsg := msg, mavRecvStatus := status\<rparr>"
  have rest: "list_all (\<lambda>m. payload m = HEARTBEAT)
                (frames_of env bytes (mavRecvMsg ?st1) (mavRecvStatus ?st1))"
    using Cons.prems(2) p by simp
  have hb: "result = MAVLINK_FRAMING_OK \<Longrightarrow> payload (mavRecvMsg ?st1) = HEARTBEAT"
    using Cons.prems(2) p by simp
  have port1: "mavlinkPort ?st1 = Some bytes" by simp
  have IH: "incoming_loop env bytes ?st1 =
           (False, ?st1\<lparr>mavlinkPort := Some [],
              mavRecvMsg := fst (parser_after env bytes (mavRecvMsg ?st1) (mavRecvStatus ?st1)),
              mavRecvStatus := snd (parser_after env bytes (mavRecvMsg ?st1) (mavRecvStatus ?st1))\<rparr>)"
    by (rule Cons.IH [OF port1 rest])
  have continue: "incoming_loop env (c # bytes) st = incoming_loop env bytes ?st1"
  proof (cases "result = MAVLINK_FRAMING_OK")
    case True
    then show ?thesis using p switch_heartbeat [OF hb [OF True], of env] by (simp add: Let_def)
  next
    case False
    then show ?thesis using p by (simp add: Let_def)
  qed
  show ?case
    unfolding continue IH using p by simp
qed

lemma loop_first_frame:
  assumes "list_all (\<lambda>m. payload m = HEARTBEAT)
             (frames_of env pre (mavRecvMsg st) (mavRecvStatus st))"
    and "mavlink_parse_char env c
           (fst (parser_after env pre (mavRecvMsg st) (mavRecvStatus st)))
           (snd (parser_after env pre (mavRecvMsg st) (mavRecvStatus st)))
         = (MAVLINK_FRAMING_OK, msg, status)"
    and "payload msg \<noteq> HEARTBEAT"
  shows "msgid_switch env (st\<lparr>mavlinkPort := Some post, mavRecvMsg := msg,
                               mavRecvStatus := status\<rparr>)
           = Some (incoming_loop env (pre @ c # post) st)"
  using assms(1,2)
proof (induction pre arbitrary: st)
  case Nil
  let ?st1 = "st\<lparr>mavlinkPort := Some post, mavRecvMsg := msg, mavRecvStatus := status\<rparr>"
  have p: "mavlink_parse_char env c (mavRecvMsg st) (mavRecvStatus st)
             = (MAVLINK_FRAMING_OK, msg, status)"
    using Nil.prems(2) by simp
  obtain r where r: "msgid_switch env ?st1 = Some r"
    using switch_returns [of ?st1 env] assms(3) by auto
  show ?case
    using p r by (simp add: Let_def)
next
  case (Cons b pre)
  obtain result m s where
    p: "mavlink_parse_char env b (mavRecvMsg st) (mavRecvStatus st) = (result, m, s)"
    by (cases "mavlink_parse_char env b (mavRecvMsg st) (mavRecvStatus st)") auto
  let ?st1 = "st\<lparr>mavlinkPort := Some (pre @ c # post), mavRecvMsg := m, mavRecvStatus := s\<rparr>"
  have rest: "list_all (\<lambda>m. payload m = HEARTBEAT)
                (frames_of env pre (mavRecvMsg ?st1) (mavRecvStatus ?st1))"
    using Cons.prems(1) p by simp
  have hb: "result = MAVLINK_FRAMING_OK \<Longrightarrow> payload (mavRecvMsg ?st1) = HEARTBEAT"
    using Cons.prems(1) p by simp
  have next_byte: "mavlink_parse_char env c
           (fst (parser_after env pre (mavRecvMsg ?st1) (mavRecvStatus ?st1)))
           (snd (parser_after env pre (mavRecvMsg ?st1) (mavRecvStatus ?st1)))
         = (MAVLINK_FRAMING_OK, msg, status)"
    using Cons.prems(2) p by simp
  have IH: "msgid_switch env (?st1\<lparr>mavlinkPort := Some post, mavRecvMsg := msg,
                               mavRecvStatus := status\<rparr>)
           = Some (incoming_loop env (pre @ c # post) ?st1)"
    by (rule Cons.IH [OF rest next_byte])
  have continue: "incoming_loop env ((b # pre) @ c # post) st
                    = incoming_loop env (pre @ c # post) ?st1"
  proof (cases "result = MAVLINK_FRAMING_OK")
    case True
    then show ?thesis using p switch_heartbeat [OF hb [OF True], of env] by (simp add: Let_def)
  next
    case False
    then show ?thesis using p by (simp add: Let_def)
  qed
  show ?case
    unfolding continue using IH by simp
qed

lemma stream_cases:
  "list_all (\<lambda>m. payload m = HEARTBEAT) (frames_of env bytes msg0 status0)
   \<or> (\<exists>pre c post msg status.
         bytes = pre @ c # post
         \<and> list_all (\<lambda>m. payload m = HEARTBEAT) (frames_of env pre msg0 status0)
         \<and> mavlink_parse_char env c
              (fst (parser_after env pre msg0 status0)) (snd (parser_after env pre msg0 status0))
            = (MAVLINK_FRAMING_OK, msg, status)
         \<and> payload msg \<noteq> HEARTBEAT)"
proof (induction bytes arbitrary: msg0 status0)
  case Nil
  then show ?case by simp
next
  case (Cons b bytes)
  obtain result m s where
    p: "mavlink_parse_char env b msg0 status0 = (result, m, s)"
    by (cases "mavlink_parse_char env b msg0 status0") auto
  show ?case
  proof (cases "result = MAVLINK_FRAMING_OK \<and> payload m \<noteq> HEARTBEAT")
    case True
    have "b # bytes = [] @ b # bytes
         \<and> list_all (\<lambda>m. payload m = HEARTBEAT) (frames_of env [] msg0 status0)
         \<and> mavlink_parse_char env b
              (fst (parser_after env [] msg0 status0)) (snd (parser_after env [] msg0 status0))
            = (MAVLINK_FRAMING_OK, m, s)
         \<and> payload m \<noteq> HEARTBEAT"
      using p True by simp
    then show ?thesis by blast
  next
    case False
    note hb = False
    from Cons.IH [of m s] show ?thesis
    proof
      assume "list_all (\<lambda>m. payload m = HEARTBEAT) (frames_of env bytes m s)"
      then have "list_all (\<lambda>m. payload m = HEARTBEAT) (frames_of env (b # bytes) msg0 status0)"
        using p hb by auto
      then show ?thesis by blast
    next
      assume "\<exists>pre c post msg status.
         bytes = pre @ c # post
         \<and> list_all (\<lambda>m. payload m = HEARTBEAT) (frames_of env pre m s)
         \<and> mavlink_parse_char env c
              (fst (parser_after env pre m s)) (snd (parser_after env pre m s))
            = (MAVLINK_FRAMING_OK, msg, status)
         \<and> payload msg \<noteq> HEARTBEAT"
      then obtain pre c post msg status where
        d: "bytes = pre @ c # post"
          "list_all (\<lambda>m. payload m = HEARTBEAT) (frames_of env pre m s)"
          "mavlink_parse_char env c
              (fst (parser_after env pre m s)) (snd (parser_after env pre m s))
            = (MAVLINK_FRAMING_OK, msg, status)"
          "payload msg \<noteq> HEARTBEAT"
        by blast
      have "b # bytes = (b # pre) @ c # post
         \<and> list_all (\<lambda>m. payload m = HEARTBEAT) (frames_of env (b # pre) msg0 status0)
         \<and> mavlink_parse_char env c
              (fst (parser_after env (b # pre) msg0 status0))
              (snd (parser_after env (b # pre) msg0 status0))
            = (MAVLINK_FRAMING_OK, msg, status)
         \<and> payload msg \<noteq> HEARTBEAT"
        using d p hb by auto
      then show ?thesis by blast
    qed
  qed
qed

text \<open>
  C6 (amended): for every input byte stream, a single call of the inbound decoder
  stops its read loop at the first complete frame that is not a heartbeat, leaves
  the bytes after that frame unread and hands that frame, and no other, to the
  switch: the call returns what the switch returns for it, which is the result of
  the handler for a mission message and not-handled for any other message id. A
  heartbeat frame does not stop the loop: the call reads on, and a stream in which
  every complete frame is a heartbeat is read to its end and reported as
  not-handled. Every stream is of one of these two kinds. So the call reads a prefix
  of the waiting bytes, writes at most one reply, reports handled only when the frame
  it stopped at is a mission message addressed to this system, and has not stopped at
  a heartbeat when bytes are left.
\<close>

theorem decoder_one_dispatch:
  assumes "mavlinkPort st = Some waiting"
  shows "(\<exists>n\<le>length waiting.
            mavlinkPort (snd (processMAVLinkIncomingTelemetry env st)) = Some (drop n waiting))
       \<and> (\<exists>ms. sent (snd (processMAVLinkIncomingTelemetry env st)) = sent st @ ms
                \<and> length ms \<le> 1)
       \<and> (fst (processMAVLinkIncomingTelemetry env st) \<longrightarrow>
            mission_target (payload (mavRecvMsg (snd (processMAVLinkIncomingTelemetry env st))))
              = Some (mavSystemId st))
       \<and> (mavlinkPort (snd (processMAVLinkIncomingTelemetry env st)) \<noteq> Some [] \<longrightarrow>
            payload (mavRecvMsg (snd (processMAVLinkIncomingTelemetry env st))) \<noteq> HEARTBEAT)
       \<and> (only_heartbeats env waiting st \<longrightarrow>
            processMAVLinkIncomingTelemetry env st =
              (False, st\<lparr>mavlinkPort := Some [],
                 mavRecvMsg := fst (parser_after env waiting (mavRecvMsg st) (mavRecvStatus st)),
                 mavRecvStatus := snd (parser_after env waiting (mavRecvMsg st) (mavRecvStatus st))\<rparr>))
       \<and> (waiting = pre @ c # post \<and> only_heartbeats env pre st
            \<and> mavlink_parse_char env c
                 (fst (parser_after env pre (mavRecvMsg st) (mavRecvStatus st)))
                 (snd (parser_after env pre (mavRecvMsg st) (mavRecvStatus st)))
               = (MAVLINK_FRAMING_OK, msg, status)
            \<and> payload msg \<noteq> HEARTBEAT \<longrightarrow>
            msgid_switch env (st\<lparr>mavlinkPort := Some post, mavRecvMsg := msg,
                                  mavRecvStatus := status\<rparr>)
              = Some (processMAVLinkIncomingTelemetry env st)
            \<and> (mission_target (payload msg) = None \<longrightarrow>
                 processMAVLinkIncomingTelemetry env st =
                   (False, st\<lparr>mavlinkPort := Some post, mavRecvMsg := msg,
                              mavRecvStatus := status\<rparr>)))
       \<and> (only_heartbeats env waiting st
            \<or> (\<exists>pre' c' post' msg' status'.
                  waiting = pre' @ c' # post' \<and> only_heartbeats env pre' st
                  \<and> mavlink_parse_char env c'
                       (fst (parser_after env pre' (mavRecvMsg st) (mavRecvStatus st)))
                       (snd (parser_after env pre' (mavRecvMsg st) (mavRecvStatus st)))
                     = (MAVLINK_FRAMING_OK, msg', status')
                  \<and> payload msg' \<noteq> HEARTBEAT))"
proof -
  have kinds: "only_heartbeats env waiting st
            \<or> (\<exists>pre' c' post' msg' status'.
                  waiting = pre' @ c' # post' \<and> only_heartbeats env pre' st
                  \<and> mavlink_parse_char env c'
                       (fst (parser_after env pre' (mavRecvMsg st) (mavRecvStatus st)))
                       (snd (parser_after env pre' (mavRecvMsg st) (mavRecvStatus st)))
                     = (MAVLINK_FRAMING_OK, msg', status')
                  \<and> payload msg' \<noteq> HEARTBEAT)"
    unfolding only_heartbeats_def by (rule stream_cases)
  have p: "processMAVLinkIncomingTelemetry env st = incoming_loop env waiting st"
    using assms by (simp add: processMAVLinkIncomingTelemetry_def)
  have e: "decoder_effect waiting st (incoming_loop env waiting st)"
    using assms by (rule incoming_loop_effect)
  have old: "(\<exists>n\<le>length waiting.
            mavlinkPort (snd (incoming_loop env waiting st)) = Some (drop n waiting))
       \<and> (\<exists>ms. sent (snd (incoming_loop env waiting st)) = sent st @ ms \<and> length ms \<le> 1)
       \<and> (fst (incoming_loop env waiting st) \<longrightarrow>
            mission_target (payload (mavRecvMsg (snd (incoming_loop env waiting st))))
              = Some (mavSystemId st))
       \<and> (mavlinkPort (snd (incoming_loop env waiting st)) \<noteq> Some [] \<longrightarrow>
            payload (mavRecvMsg (snd (incoming_loop env waiting st))) \<noteq> HEARTBEAT)"
    using e unfolding decoder_effect_def by blast
  have all_hb: "incoming_loop env waiting st =
              (False, st\<lparr>mavlinkPort := Some [],
                 mavRecvMsg := fst (parser_after env waiting (mavRecvMsg st) (mavRecvStatus st)),
                 mavRecvStatus := snd (parser_after env waiting (mavRecvMsg st) (mavRecvStatus st))\<rparr>)"
    if "only_heartbeats env waiting st"
    using that assms unfolding only_heartbeats_def by (intro loop_only_heartbeats)
  have first: "msgid_switch env (st\<lparr>mavlinkPort := Some post, mavRecvMsg := msg,
                                  mavRecvStatus := status\<rparr>)
              = Some (incoming_loop env waiting st)
            \<and> (mission_target (payload msg) = None \<longrightarrow>
                 incoming_loop env waiting st =
                   (False, st\<lparr>mavlinkPort := Some post, mavRecvMsg := msg,
                              mavRecvStatus := status\<rparr>))"
    if w: "waiting = pre @ c # post" and hb: "only_heartbeats env pre st"
      and pc: "mavlink_parse_char env c
                 (fst (parser_after env pre (mavRecvMsg st) (mavRecvStatus st)))
                 (snd (parser_after env pre (mavRecvMsg st) (mavRecvStatus st)))
               = (MAVLINK_FRAMING_OK, msg, status)"
      and nh: "payload msg \<noteq> HEARTBEAT"
  proof -
    let ?st1 = "st\<lparr>mavlinkPort := Some post, mavRecvMsg := msg, mavRecvStatus := status\<rparr>"
    have sw: "msgid_switch env ?st1 = Some (incoming_loop env waiting st)"
      unfolding w using hb pc nh unfolding only_heartbeats_def by (intro loop_first_frame)
    have "incoming_loop env waiting st = (False, ?st1)" if "mission_target (payload msg) = None"
    proof -
      have "\<exists>i. payload msg = OTHER_MSG i"
        using that nh by (cases "payload msg") (simp_all add: mission_target_def)
      then obtain i where "payload msg = OTHER_MSG i" ..
      then have "msgid_switch env ?st1 = Some (False, ?st1)"
        by (intro switch_other) simp
      then show ?thesis using sw by simp
    qed
    then show ?thesis using sw by blast
  qed
  have main: "(only_heartbeats env waiting st \<longrightarrow>
            incoming_loop env waiting st =
              (False, st\<lparr>mavlinkPort := Some [],
                 mavRecvMsg := fst (parser_after env waiting (mavRecvMsg st) (mavRecvStatus st)),
                 mavRecvStatus := snd (parser_after env waiting (mavRecvMsg st) (mavRecvStatus st))\<rparr>))
       \<and> (waiting = pre @ c # post \<and> only_heartbeats env pre st
            \<and> mavlink_parse_char env c
                 (fst (parser_after env pre (mavRecvMsg st) (mavRecvStatus st)))
                 (snd (parser_after env pre (mavRecvMsg st) (mavRecvStatus st)))
               = (MAVLINK_FRAMING_OK, msg, status)
            \<and> payload msg \<noteq> HEARTBEAT \<longrightarrow>
            msgid_switch env (st\<lparr>mavlinkPort := Some post, mavRecvMsg := msg,
                                  mavRecvStatus := status\<rparr>)
              = Some (incoming_loop env waiting st)
            \<and> (mission_target (payload msg) = None \<longrightarrow>
                 incoming_loop env waiting st =
                   (False, st\<lparr>mavlinkPort := Some post, mavRecvMsg := msg,
                              mavRecvStatus := status\<rparr>)))"
    using all_hb first by blast
  show ?thesis
    unfolding p using old main kinds by (intro conjI) (elim conjE, assumption)+
qed

text \<open>
  The amended C6 at three streams: a heartbeat, a list-clear and a message without a
  case (the call skips the heartbeat, handles the list-clear and leaves the third
  frame in the port); a heartbeat alone (read to the end, not handled); and a message
  without a case followed by a list-clear (the call stops at the first frame, not
  handled, and leaves the list-clear in the port).
\<close>

theorem decoder_one_dispatch_witness:
  "mavlinkPort (example_init\<lparr>mavlinkPort := Some [0xFE, 0, 0xFE, 45, 0xFE, 7]\<rparr>)
     = Some ([0xFE, 0, 0xFE] @ 45 # [0xFE, 7])
   \<and> only_heartbeats example_env [0xFE, 0, 0xFE]
        (example_init\<lparr>mavlinkPort := Some [0xFE, 0, 0xFE, 45, 0xFE, 7]\<rparr>)
   \<and> payload (example_frame (MISSION_CLEAR_ALL example_clear_all)) \<noteq> HEARTBEAT
   \<and> processMAVLinkIncomingTelemetry example_env
        (example_init\<lparr>mavlinkPort := Some [0xFE, 0, 0xFE, 45, 0xFE, 7]\<rparr>)
      = (True, example_init\<lparr>mavlinkPort := Some [0xFE, 7],
           mavRecvMsg := example_frame (MISSION_CLEAR_ALL example_clear_all),
           sent := [SEND_MISSION_ACK 255 0 MAV_MISSION_ACCEPTED]\<rparr>)
   \<and> mission_target (payload (example_frame (MISSION_CLEAR_ALL example_clear_all)))
      = Some (mavSystemId example_init)
   \<and> only_heartbeats example_env [0xFE, 0] (example_init\<lparr>mavlinkPort := Some [0xFE, 0]\<rparr>)
   \<and> processMAVLinkIncomingTelemetry example_env (example_init\<lparr>mavlinkPort := Some [0xFE, 0]\<rparr>)
      = (False, example_init\<lparr>mavlinkPort := Some [], mavRecvMsg := example_frame HEARTBEAT\<rparr>)
   \<and> only_heartbeats example_env [0xFE] (example_init\<lparr>mavlinkPort := Some [0xFE, 7, 0xFE, 45]\<rparr>)
   \<and> mission_target (payload (example_frame (OTHER_MSG 7))) = None
   \<and> payload (example_frame (OTHER_MSG 7)) \<noteq> HEARTBEAT
   \<and> processMAVLinkIncomingTelemetry example_env
        (example_init\<lparr>mavlinkPort := Some [0xFE, 7, 0xFE, 45]\<rparr>)
      = (False, example_init\<lparr>mavlinkPort := Some [0xFE, 45],
           mavRecvMsg := example_frame (OTHER_MSG 7)\<rparr>)"
proof -
  let ?a = "example_init\<lparr>mavlinkPort := Some [0xFE, 0, 0xFE, 45, 0xFE, 7]\<rparr>"
  let ?b = "example_init\<lparr>mavlinkPort := Some [0xFE, 0]\<rparr>"
  let ?c = "example_init\<lparr>mavlinkPort := Some [0xFE, 7, 0xFE, 45]\<rparr>"
  have a: "mavlinkPort ?a = Some [0xFE, 0, 0xFE, 45, 0xFE, 7]"
      "[0xFE, 0, 0xFE, 45, 0xFE, 7] = [0xFE, 0, 0xFE] @ 45 # [0xFE, 7 :: 8 word]"
      "only_heartbeats example_env [0xFE, 0, 0xFE] ?a"
      "mavlink_parse_char example_env 45
         (fst (parser_after example_env [0xFE, 0, 0xFE] (mavRecvMsg ?a) (mavRecvStatus ?a)))
         (snd (parser_after example_env [0xFE, 0, 0xFE] (mavRecvMsg ?a) (mavRecvStatus ?a)))
       = (MAVLINK_FRAMING_OK, example_frame (MISSION_CLEAR_ALL example_clear_all), False)"
      "payload (example_frame (MISSION_CLEAR_ALL example_clear_all)) \<noteq> HEARTBEAT"
    by (simp_all add: only_heartbeats_def example_defs example_frame_def)
  have b: "mavlinkPort ?b = Some [0xFE, 0]" "only_heartbeats example_env [0xFE, 0] ?b"
      "parser_after example_env [0xFE, 0] (mavRecvMsg ?b) (mavRecvStatus ?b)
         = (example_frame HEARTBEAT, False)"
    by (simp_all add: only_heartbeats_def example_defs example_frame_def)
  have c: "mavlinkPort ?c = Some [0xFE, 7, 0xFE, 45]"
      "[0xFE, 7, 0xFE, 45] = [0xFE] @ 7 # [0xFE, 45 :: 8 word]"
      "only_heartbeats example_env [0xFE] ?c"
      "mavlink_parse_char example_env 7
         (fst (parser_after example_env [0xFE] (mavRecvMsg ?c) (mavRecvStatus ?c)))
         (snd (parser_after example_env [0xFE] (mavRecvMsg ?c) (mavRecvStatus ?c)))
       = (MAVLINK_FRAMING_OK, example_frame (OTHER_MSG 7), False)"
      "payload (example_frame (OTHER_MSG 7)) \<noteq> HEARTBEAT"
      "mission_target (payload (example_frame (OTHER_MSG 7))) = None"
    by (simp_all add: only_heartbeats_def example_defs example_frame_def mission_target_def)
  have sw: "msgid_switch example_env
              (?a\<lparr>mavlinkPort := Some [0xFE, 7],
                  mavRecvMsg := example_frame (MISSION_CLEAR_ALL example_clear_all),
                  mavRecvStatus := False\<rparr>)
            = Some (True, example_init\<lparr>mavlinkPort := Some [0xFE, 7],
                 mavRecvMsg := example_frame (MISSION_CLEAR_ALL example_clear_all),
                 sent := [SEND_MISSION_ACK 255 0 MAV_MISSION_ACCEPTED]\<rparr>)"
    by (simp add: msgid_switch_def example_defs example_frame_def handler_defs
        resetWaypointList_def)
  note tha = decoder_one_dispatch [where env = example_env and pre = "[0xFE, 0, 0xFE]"
        and c = 45 and post = "[0xFE, 7]"
        and msg = "example_frame (MISSION_CLEAR_ALL example_clear_all)" and status = False,
        OF a(1), THEN conjunct2, THEN conjunct2, THEN conjunct2, THEN conjunct2,
        THEN conjunct2, THEN conjunct1, THEN mp, THEN conjunct1]
  have "msgid_switch example_env
              (?a\<lparr>mavlinkPort := Some [0xFE, 7],
                  mavRecvMsg := example_frame (MISSION_CLEAR_ALL example_clear_all),
                  mavRecvStatus := False\<rparr>)
          = Some (processMAVLinkIncomingTelemetry example_env ?a)"
    by (rule tha) (intro conjI a(2-5))
  then have ra: "processMAVLinkIncomingTelemetry example_env ?a
      = (True, example_init\<lparr>mavlinkPort := Some [0xFE, 7],
           mavRecvMsg := example_frame (MISSION_CLEAR_ALL example_clear_all),
           sent := [SEND_MISSION_ACK 255 0 MAV_MISSION_ACCEPTED]\<rparr>)"
    unfolding sw by simp
  note thb = decoder_one_dispatch [where env = example_env, OF b(1),
        THEN conjunct2, THEN conjunct2, THEN conjunct2, THEN conjunct2, THEN conjunct1, THEN mp]
  have "processMAVLinkIncomingTelemetry example_env ?b =
          (False, ?b\<lparr>mavlinkPort := Some [],
             mavRecvMsg := fst (parser_after example_env [0xFE, 0] (mavRecvMsg ?b) (mavRecvStatus ?b)),
             mavRecvStatus := snd (parser_after example_env [0xFE, 0] (mavRecvMsg ?b) (mavRecvStatus ?b))\<rparr>)"
    by (rule thb) (rule b(2))
  then have rb: "processMAVLinkIncomingTelemetry example_env ?b
      = (False, example_init\<lparr>mavlinkPort := Some [], mavRecvMsg := example_frame HEARTBEAT\<rparr>)"
    unfolding b(3) by (simp add: example_init_def telemetry_init_def)
  note thc = decoder_one_dispatch [where env = example_env and pre = "[0xFE]"
        and c = 7 and post = "[0xFE, 45]"
        and msg = "example_frame (OTHER_MSG 7)" and status = False, OF c(1),
        THEN conjunct2, THEN conjunct2, THEN conjunct2, THEN conjunct2,
        THEN conjunct2, THEN conjunct1, THEN mp, THEN conjunct2, THEN mp]
  have "processMAVLinkIncomingTelemetry example_env ?c =
          (False, ?c\<lparr>mavlinkPort := Some [0xFE, 45], mavRecvMsg := example_frame (OTHER_MSG 7),
                     mavRecvStatus := False\<rparr>)"
    by (rule thc) (intro conjI c(2-5), rule c(6))
  then have rc: "processMAVLinkIncomingTelemetry example_env ?c
      = (False, example_init\<lparr>mavlinkPort := Some [0xFE, 45],
           mavRecvMsg := example_frame (OTHER_MSG 7)\<rparr>)"
    by (simp add: example_init_def telemetry_init_def)
  have t: "mission_target (payload (example_frame (MISSION_CLEAR_ALL example_clear_all)))
      = Some (mavSystemId example_init)"
    by (simp add: mission_target_def example_defs example_frame_def)
  show ?thesis
    unfolding ra rb rc
    using a(3,5) b(2) c(3,5,6) t by simp
qed

text \<open>
  C6 as stated fails: a call that receives one heartbeat frame reports not-handled,
  and a call that receives a heartbeat frame followed by a list-clear frame decodes
  both frames, handling the second.
\<close>

theorem heartbeat_counterexample:
  "fst (processMAVLinkIncomingTelemetry example_env
          (example_init\<lparr>mavlinkPort := Some [0xFE, 0]\<rparr>)) = False
   \<and> payload (mavRecvMsg (snd (processMAVLinkIncomingTelemetry example_env
          (example_init\<lparr>mavlinkPort := Some [0xFE, 0]\<rparr>)))) = HEARTBEAT
   \<and> processMAVLinkIncomingTelemetry example_env
          (example_init\<lparr>mavlinkPort := Some [0xFE, 0, 0xFE, 45]\<rparr>)
      = (True, example_init\<lparr>mavlinkPort := Some [],
           mavRecvMsg := example_frame (MISSION_CLEAR_ALL example_clear_all),
           sent := [SEND_MISSION_ACK 255 0 MAV_MISSION_ACCEPTED]\<rparr>)"
  by (simp add: processMAVLinkIncomingTelemetry_def example_defs example_frame_def
        msgid_switch_def handler_defs
        resetWaypointList_def)

subsection \<open>Orchestrator\<close>

lemma processMAVLinkTelemetry_not_reached:
  assumes "mavlinkTelemetryEnabled st" "mavlinkPort st \<noteq> None"
    "fst (processMAVLinkIncomingTelemetry env st)"
  shows "handleMAVLinkTelemetry env t st =
           (if t - lastMavlinkMessage (snd (processMAVLinkIncomingTelemetry env st))
                 \<ge> TELEMETRY_MAVLINK_DELAY
            then (snd (processMAVLinkIncomingTelemetry env st))
                   \<lparr>incomingRequestServed := False, lastMavlinkMessage := t\<rparr>
            else (snd (processMAVLinkIncomingTelemetry env st))\<lparr>incomingRequestServed := True\<rparr>)"
  using assms
  by (cases "processMAVLinkIncomingTelemetry env st")
     (auto simp add: handleMAVLinkTelemetry_def Let_def)

text \<open>
  C9: in every cycle of the orchestrator (telemetry enabled, port open) in which the
  decoder reports a handled message, no scheduled stream is dispatched, whatever the
  time since the last batch: the cycle writes what the decoder wrote and nothing
  more, the stream messages written are those written before the cycle, and no
  stream counter moves.
\<close>

theorem no_scheduled_stream_when_served:
  assumes "mavlinkTelemetryEnabled st" "mavlinkPort st \<noteq> None"
    "fst (processMAVLinkIncomingTelemetry env st)"
  shows "sent (handleMAVLinkTelemetry env t st)
           = sent (snd (processMAVLinkIncomingTelemetry env st))
       \<and> filter is_stream (sent (handleMAVLinkTelemetry env t st)) = filter is_stream (sent st)
       \<and> mavTicks (handleMAVLinkTelemetry env t st) = mavTicks st"
proof -
  obtain waiting where w: "mavlinkPort st = Some waiting"
    using assms(2) by blast
  have p: "processMAVLinkIncomingTelemetry env st = incoming_loop env waiting st"
    using w by (simp add: processMAVLinkIncomingTelemetry_def)
  have e: "decoder_effect waiting st (processMAVLinkIncomingTelemetry env st)"
    unfolding p using w by (rule incoming_loop_effect)
  have s: "filter is_stream (sent (snd (processMAVLinkIncomingTelemetry env st)))
             = filter is_stream (sent st)"
      "mavTicks (snd (processMAVLinkIncomingTelemetry env st)) = mavTicks st"
    using e unfolding decoder_effect_def by auto
  show ?thesis
    unfolding processMAVLinkTelemetry_not_reached [OF assms]
    using s by simp
qed

text \<open>
  C9 at a cycle that receives a list-clear 20 ms after the last batch, when all six
  streams are due: only the ack is written.
\<close>

theorem no_scheduled_stream_when_served_witness:
  "mavlinkTelemetryEnabled
     (example_init\<lparr>mavlinkTelemetryEnabled := True, mavlinkPort := Some [0xFE, 45]\<rparr>)
   \<and> mavlinkPort (example_init\<lparr>mavlinkTelemetryEnabled := True, mavlinkPort := Some [0xFE, 45]\<rparr>)
       \<noteq> None
   \<and> fst (processMAVLinkIncomingTelemetry example_env
        (example_init\<lparr>mavlinkTelemetryEnabled := True, mavlinkPort := Some [0xFE, 45]\<rparr>))
   \<and> 20000 - lastMavlinkMessage
        (example_init\<lparr>mavlinkTelemetryEnabled := True, mavlinkPort := Some [0xFE, 45]\<rparr>)
       \<ge> TELEMETRY_MAVLINK_DELAY
   \<and> sent (handleMAVLinkTelemetry example_env 20000
        (example_init\<lparr>mavlinkTelemetryEnabled := True, mavlinkPort := Some [0xFE, 45]\<rparr>))
      = [SEND_MISSION_ACK 255 0 MAV_MISSION_ACCEPTED]
   \<and> mavTicks (handleMAVLinkTelemetry example_env 20000
        (example_init\<lparr>mavlinkTelemetryEnabled := True, mavlinkPort := Some [0xFE, 45]\<rparr>))
      = (\<lambda>_. 0)"
proof -
  let ?st = "example_init\<lparr>mavlinkTelemetryEnabled := True, mavlinkPort := Some [0xFE, 45]\<rparr>"
  have d: "processMAVLinkIncomingTelemetry example_env ?st
             = (True, example_init\<lparr>mavlinkTelemetryEnabled := True, mavlinkPort := Some [],
                  mavRecvMsg := example_frame (MISSION_CLEAR_ALL example_clear_all),
                  sent := [SEND_MISSION_ACK 255 0 MAV_MISSION_ACCEPTED]\<rparr>)"
    by (simp add: processMAVLinkIncomingTelemetry_def example_defs example_frame_def
        msgid_switch_def handler_defs
        resetWaypointList_def)
  have a: "mavlinkTelemetryEnabled ?st" "mavlinkPort ?st \<noteq> None"
      "fst (processMAVLinkIncomingTelemetry example_env ?st)"
    unfolding d by simp_all
  have b: "20000 - lastMavlinkMessage ?st \<ge> TELEMETRY_MAVLINK_DELAY"
      "mavTicks ?st = (\<lambda>_. 0)"
    by (simp_all add: example_defs example_frame_def TELEMETRY_MAVLINK_DELAY_def)
  from no_scheduled_stream_when_served [OF a, of 20000]
  show ?thesis
    using a b unfolding d by simp
qed

subsection \<open>Session counters\<close>

lemma uint16_bound: "uint (w :: 16 word) \<le> 65535"
  using uint_bounded [of w] by simp

lemma bounds_clear_all:
  "session_bounds env st \<Longrightarrow> session_bounds env (snd (handleIncoming_MISSION_CLEAR_ALL msg st))"
  by (simp add: session_bounds_def handler_defs)

lemma bounds_count:
  "session_bounds env st \<Longrightarrow> session_bounds env (snd (handleIncoming_MISSION_COUNT env msg st))"
  by (simp add: session_bounds_def handler_defs)

lemma bounds_item:
  "session_bounds env st \<Longrightarrow> session_bounds env (snd (handleIncoming_MISSION_ITEM env msg st))"
  using uint16_bound [of "seq msg"]
  by (simp add: session_bounds_def handler_defs Let_def)

lemma bounds_request_list:
  "session_bounds env st \<Longrightarrow> session_bounds env (snd (handleIncoming_MISSION_REQUEST_LIST msg st))"
  by (simp add: session_bounds_def handler_defs)

lemma bounds_request:
  "session_bounds env st \<Longrightarrow> session_bounds env (snd (handleIncoming_MISSION_REQUEST env msg st))"
  by (simp add: session_bounds_def handler_defs Let_def split: option.split)

lemma bounds_receive_frame:
  assumes "session_bounds env st"
  shows "session_bounds env (receive_frame env f st)"
proof -
  let ?st1 = "st\<lparr>ARMED := fst f, mavRecvMsg := snd f\<rparr>"
  have b: "session_bounds env ?st1"
    using assms by (simp add: session_bounds_def)
  show ?thesis
  proof (cases "payload (snd f)")
    case HEARTBEAT
    then show ?thesis using b by (simp add: receive_frame_def msgid_switch_def)
  next
    case (MISSION_CLEAR_ALL msg)
    then show ?thesis using bounds_clear_all [OF b, of msg]
      by (simp add: receive_frame_def msgid_switch_def)
  next
    case (MISSION_COUNT msg)
    then show ?thesis using bounds_count [OF b, of msg]
      by (simp add: receive_frame_def msgid_switch_def)
  next
    case (MISSION_ITEM msg)
    then show ?thesis using bounds_item [OF b, of msg]
      by (simp add: receive_frame_def msgid_switch_def)
  next
    case (MISSION_REQUEST_LIST msg)
    then show ?thesis using bounds_request_list [OF b, of msg]
      by (simp add: receive_frame_def msgid_switch_def)
  next
    case (MISSION_REQUEST msg)
    then show ?thesis using bounds_request [OF b, of msg]
      by (simp add: receive_frame_def msgid_switch_def)
  next
    case (OTHER_MSG x)
    then show ?thesis using b by (simp add: receive_frame_def msgid_switch_def)
  qed
qed

lemma bounds_run_frames:
  "session_bounds env st \<Longrightarrow> session_bounds env (run_frames env frames st)"
  unfolding run_frames_def
  by (induction frames arbitrary: st) (simp_all add: bounds_receive_frame)

lemma in_progress_step:
  assumes "incomingMissionWpSequence st < incomingMissionWpCount st"
  shows "incomingMissionWpSequence (receive_frame env f st)
           \<le> incomingMissionWpCount (receive_frame env f st)"
  using assms
  by (cases "payload (snd f)")
     (simp_all add: receive_frame_def msgid_switch_def handler_defs Let_def split: option.split)

lemma item_counters:
  "incomingMissionWpCount (snd (handleIncoming_MISSION_ITEM env msg st)) = incomingMissionWpCount st
   \<and> incomingMissionWpSequence (snd (handleIncoming_MISSION_ITEM env msg st)) =
       (if target_system msg = mavSystemId st \<and> \<not> ARMED st \<and> item_supported msg
           \<and> uint (seq msg) = incomingMissionWpSequence st
        then incomingMissionWpSequence st + 1 else incomingMissionWpSequence st)"
  by (simp add: handler_defs item_supported_def Let_def)

lemma count_counters:
  "incomingMissionWpCount (snd (handleIncoming_MISSION_COUNT env msg st)) =
       (if target_system msg = mavSystemId st \<and> uint (count msg) \<le> NAV_MAX_WAYPOINTS env
        then uint (count msg) else incomingMissionWpCount st)
   \<and> incomingMissionWpSequence (snd (handleIncoming_MISSION_COUNT env msg st)) =
       (if target_system msg = mavSystemId st \<and> uint (count msg) \<le> NAV_MAX_WAYPOINTS env
        then 0 else incomingMissionWpSequence st)"
  by (simp add: handler_defs)

lemma other_counters:
  "incomingMissionWpCount (snd (handleIncoming_MISSION_CLEAR_ALL cmsg st)) = incomingMissionWpCount st"
  "incomingMissionWpSequence (snd (handleIncoming_MISSION_CLEAR_ALL cmsg st))
     = incomingMissionWpSequence st"
  "incomingMissionWpCount (snd (handleIncoming_MISSION_REQUEST_LIST cmsg st))
     = incomingMissionWpCount st"
  "incomingMissionWpSequence (snd (handleIncoming_MISSION_REQUEST_LIST cmsg st))
     = incomingMissionWpSequence st"
  "incomingMissionWpCount (snd (handleIncoming_MISSION_REQUEST env rmsg st))
     = incomingMissionWpCount st"
  "incomingMissionWpSequence (snd (handleIncoming_MISSION_REQUEST env rmsg st))
     = incomingMissionWpSequence st"
  by (simp_all add: handler_defs Let_def split: option.split)

lemma counters_step:
  "incomingMissionWpCount (receive_frame env f st) =
     (case announcement_accepted env (mavSystemId st) (payload (snd f)) of
        Some n \<Rightarrow> n | None \<Rightarrow> incomingMissionWpCount st)
   \<and> incomingMissionWpSequence (receive_frame env f st) =
     (case announcement_accepted env (mavSystemId st) (payload (snd f)) of
        Some n \<Rightarrow> 0
      | None \<Rightarrow>
          if item_accepted (fst f) (mavSystemId st) (incomingMissionWpSequence st) (payload (snd f))
          then incomingMissionWpSequence st + 1 else incomingMissionWpSequence st)"
proof (cases "payload (snd f)")
  case HEARTBEAT
  then show ?thesis
    by (simp add: receive_frame_def msgid_switch_def announcement_accepted_def item_accepted_def)
next
  case (MISSION_CLEAR_ALL msg)
  then show ?thesis
    by (simp add: receive_frame_def msgid_switch_def announcement_accepted_def item_accepted_def
          other_counters)
next
  case (MISSION_COUNT msg)
  then show ?thesis
    using count_counters [of env msg "st\<lparr>ARMED := fst f, mavRecvMsg := snd f\<rparr>"]
    by (simp add: receive_frame_def msgid_switch_def announcement_accepted_def item_accepted_def)
next
  case (MISSION_ITEM msg)
  then show ?thesis
    using item_counters [of env msg "st\<lparr>ARMED := fst f, mavRecvMsg := snd f\<rparr>"]
    by (simp add: receive_frame_def msgid_switch_def announcement_accepted_def item_accepted_def)
next
  case (MISSION_REQUEST_LIST msg)
  then show ?thesis
    by (simp add: receive_frame_def msgid_switch_def announcement_accepted_def item_accepted_def
          other_counters)
next
  case (MISSION_REQUEST msg)
  then show ?thesis
    by (simp add: receive_frame_def msgid_switch_def announcement_accepted_def item_accepted_def
          other_counters)
next
  case (OTHER_MSG x)
  then show ?thesis
    by (simp add: receive_frame_def msgid_switch_def announcement_accepted_def item_accepted_def)
qed

text \<open>
  C3 (amended): in every state reached from zeroed counters by any sequence of inbound
  frames, with any arming flag at each, \<open>0 \<le> wpCount \<le> NAV_MAX_WAYPOINTS\<close> and
  \<open>0 \<le> wpSequence \<le> 65536\<close> hold, and while items are outstanding
  (\<open>wpSequence < wpCount\<close>) the next frame leaves \<open>wpSequence \<le> wpCount\<close>. Nothing
  resets the counters to zero on a completed upload, a rejection or a list-clear: the
  next frame changes \<open>wpCount\<close> only if it is an accepted count announcement, which
  sets \<open>wpCount\<close> to the announced count and \<open>wpSequence\<close> to 0, and it changes
  \<open>wpSequence\<close> otherwise only if it is an accepted item, which adds one to it, also
  when that item completes the upload; every other frame, a list-clear and every
  rejected message among them, leaves both counters as they are.
\<close>

theorem session_counters_bounded:
  assumes "0 \<le> NAV_MAX_WAYPOINTS env"
    and "incomingMissionWpCount st0 = 0" "incomingMissionWpSequence st0 = 0"
  shows "0 \<le> incomingMissionWpSequence (run_frames env frames st0)
       \<and> incomingMissionWpSequence (run_frames env frames st0) \<le> 65536
       \<and> 0 \<le> incomingMissionWpCount (run_frames env frames st0)
       \<and> incomingMissionWpCount (run_frames env frames st0) \<le> NAV_MAX_WAYPOINTS env
       \<and> (incomingMissionWpSequence (run_frames env frames st0)
             < incomingMissionWpCount (run_frames env frames st0) \<longrightarrow>
           incomingMissionWpSequence (receive_frame env f (run_frames env frames st0))
             \<le> incomingMissionWpCount (receive_frame env f (run_frames env frames st0)))
       \<and> incomingMissionWpCount (receive_frame env f (run_frames env frames st0)) =
           (case announcement_accepted env (mavSystemId (run_frames env frames st0))
                   (payload (snd f)) of
              Some n \<Rightarrow> n
            | None \<Rightarrow> incomingMissionWpCount (run_frames env frames st0))
       \<and> incomingMissionWpSequence (receive_frame env f (run_frames env frames st0)) =
           (case announcement_accepted env (mavSystemId (run_frames env frames st0))
                   (payload (snd f)) of
              Some n \<Rightarrow> 0
            | None \<Rightarrow>
                if item_accepted (fst f) (mavSystemId (run_frames env frames st0))
                     (incomingMissionWpSequence (run_frames env frames st0)) (payload (snd f))
                then incomingMissionWpSequence (run_frames env frames st0) + 1
                else incomingMissionWpSequence (run_frames env frames st0))"
proof -
  have "session_bounds env st0"
    using assms by (simp add: session_bounds_def)
  then have "session_bounds env (run_frames env frames st0)"
    by (rule bounds_run_frames)
  then have b: "0 \<le> incomingMissionWpSequence (run_frames env frames st0)
       \<and> incomingMissionWpSequence (run_frames env frames st0) \<le> 65536
       \<and> 0 \<le> incomingMissionWpCount (run_frames env frames st0)
       \<and> incomingMissionWpCount (run_frames env frames st0) \<le> NAV_MAX_WAYPOINTS env"
    by (simp add: session_bounds_def)
  show ?thesis
    using b in_progress_step [of "run_frames env frames st0" env f]
      counters_step [of env f "run_frames env frames st0"]
    by blast
qed

lemma example_announced:
  "run_frames example_env [(False, example_frame (MISSION_COUNT (example_count 2)))] example_init
     = example_init\<lparr>mavRecvMsg := example_frame (MISSION_COUNT (example_count 2)),
         incomingMissionWpCount := 2, sent := [SEND_MISSION_REQUEST 255 0 0]\<rparr>"
  by (simp add: run_frames_def receive_frame_def msgid_switch_def example_defs
        example_count_def example_frame_def handler_defs)

lemma example_announced_item:
  "incomingMissionWpCount (run_frames example_env
      [(False, example_frame (MISSION_COUNT (example_count 2))),
       (False, example_frame (MISSION_ITEM
          (example_item 0 MAV_FRAME_GLOBAL_RELATIVE_ALT MAV_CMD_NAV_WAYPOINT)))] example_init) = 2"
  "incomingMissionWpSequence (run_frames example_env
      [(False, example_frame (MISSION_COUNT (example_count 2))),
       (False, example_frame (MISSION_ITEM
          (example_item 0 MAV_FRAME_GLOBAL_RELATIVE_ALT MAV_CMD_NAV_WAYPOINT)))] example_init) = 1"
  "mavSystemId (run_frames example_env
      [(False, example_frame (MISSION_COUNT (example_count 2))),
       (False, example_frame (MISSION_ITEM
          (example_item 0 MAV_FRAME_GLOBAL_RELATIVE_ALT MAV_CMD_NAV_WAYPOINT)))] example_init) = 1"
  by (simp_all add: run_frames_def receive_frame_def msgid_switch_def example_defs
        example_count_def example_frame_def handler_defs const_defs setWaypoint_def Let_def)

text \<open>
  The amended C3 after an announcement of two items: at the first item, which is
  accepted, and at a list-clear after that item, which leaves the counters at 2 and 1.
\<close>

theorem session_counters_bounded_witness:
  "0 \<le> NAV_MAX_WAYPOINTS example_env
   \<and> incomingMissionWpCount example_init = 0 \<and> incomingMissionWpSequence example_init = 0
   \<and> incomingMissionWpSequence (run_frames example_env
        [(False, example_frame (MISSION_COUNT (example_count 2)))] example_init)
      < incomingMissionWpCount (run_frames example_env
        [(False, example_frame (MISSION_COUNT (example_count 2)))] example_init)
   \<and> incomingMissionWpCount (run_frames example_env
        [(False, example_frame (MISSION_COUNT (example_count 2)))] example_init)
      \<le> NAV_MAX_WAYPOINTS example_env
   \<and> incomingMissionWpSequence (receive_frame example_env
        (False, example_frame (MISSION_ITEM
           (example_item 0 MAV_FRAME_GLOBAL_RELATIVE_ALT MAV_CMD_NAV_WAYPOINT)))
        (run_frames example_env
           [(False, example_frame (MISSION_COUNT (example_count 2)))] example_init))
      \<le> incomingMissionWpCount (receive_frame example_env
        (False, example_frame (MISSION_ITEM
           (example_item 0 MAV_FRAME_GLOBAL_RELATIVE_ALT MAV_CMD_NAV_WAYPOINT)))
        (run_frames example_env
           [(False, example_frame (MISSION_COUNT (example_count 2)))] example_init))
   \<and> incomingMissionWpSequence (receive_frame example_env
        (False, example_frame (MISSION_ITEM
           (example_item 0 MAV_FRAME_GLOBAL_RELATIVE_ALT MAV_CMD_NAV_WAYPOINT)))
        (run_frames example_env
           [(False, example_frame (MISSION_COUNT (example_count 2)))] example_init)) = 1
   \<and> incomingMissionWpCount (receive_frame example_env
        (False, example_frame (MISSION_CLEAR_ALL example_clear_all))
        (run_frames example_env
           [(False, example_frame (MISSION_COUNT (example_count 2))),
            (False, example_frame (MISSION_ITEM
               (example_item 0 MAV_FRAME_GLOBAL_RELATIVE_ALT MAV_CMD_NAV_WAYPOINT)))]
           example_init)) = 2
   \<and> incomingMissionWpSequence (receive_frame example_env
        (False, example_frame (MISSION_CLEAR_ALL example_clear_all))
        (run_frames example_env
           [(False, example_frame (MISSION_COUNT (example_count 2))),
            (False, example_frame (MISSION_ITEM
               (example_item 0 MAV_FRAME_GLOBAL_RELATIVE_ALT MAV_CMD_NAV_WAYPOINT)))]
           example_init)) = 1"
proof -
  let ?count = "(False, example_frame (MISSION_COUNT (example_count 2)))"
  let ?item = "(False, example_frame (MISSION_ITEM
                 (example_item 0 MAV_FRAME_GLOBAL_RELATIVE_ALT MAV_CMD_NAV_WAYPOINT)))"
  let ?clear = "(False, example_frame (MISSION_CLEAR_ALL example_clear_all))"
  have a: "0 \<le> NAV_MAX_WAYPOINTS example_env"
      "incomingMissionWpCount example_init = 0" "incomingMissionWpSequence example_init = 0"
    by (simp_all add: example_defs)
  have s1: "incomingMissionWpSequence (run_frames example_env [?count] example_init) = 0"
      "incomingMissionWpCount (run_frames example_env [?count] example_init) = 2"
      "mavSystemId (run_frames example_env [?count] example_init) = 1"
    unfolding example_announced by (simp_all add: example_defs)
  have acc: "announcement_accepted example_env 1 (payload (snd ?item)) = None"
      "item_accepted (fst ?item) 1 0 (payload (snd ?item))"
      "announcement_accepted example_env 1 (payload (snd ?clear)) = None"
      "\<not> item_accepted (fst ?clear) 1 1 (payload (snd ?clear))"
    by (simp_all add: announcement_accepted_def item_accepted_def example_frame_def
          example_item_def item_supported_def const_defs)
  note t1 = session_counters_bounded [OF a, where frames = "[?count]" and f = ?item]
  note t2 = session_counters_bounded [OF a, where frames = "[?count, ?item]" and f = ?clear]
  have i1: "incomingMissionWpSequence (receive_frame example_env ?item
              (run_frames example_env [?count] example_init))
            \<le> incomingMissionWpCount (receive_frame example_env ?item
              (run_frames example_env [?count] example_init))"
    using t1 [THEN conjunct2, THEN conjunct2, THEN conjunct2, THEN conjunct2, THEN conjunct1]
      s1 by simp
  have i2: "incomingMissionWpSequence (receive_frame example_env ?item
              (run_frames example_env [?count] example_init)) = 1"
    unfolding t1 [THEN conjunct2, THEN conjunct2, THEN conjunct2, THEN conjunct2,
                  THEN conjunct2, THEN conjunct2]
    using s1 acc by simp
  have c1: "incomingMissionWpCount (receive_frame example_env ?clear
              (run_frames example_env [?count, ?item] example_init)) = 2"
    unfolding t2 [THEN conjunct2, THEN conjunct2, THEN conjunct2, THEN conjunct2,
                  THEN conjunct2, THEN conjunct1]
    using example_announced_item acc by simp
  have c2: "incomingMissionWpSequence (receive_frame example_env ?clear
              (run_frames example_env [?count, ?item] example_init)) = 1"
    unfolding t2 [THEN conjunct2, THEN conjunct2, THEN conjunct2, THEN conjunct2,
                  THEN conjunct2, THEN conjunct2]
    using example_announced_item acc by simp
  have m: "NAV_MAX_WAYPOINTS example_env = 60"
    by (simp add: example_env_def)
  show ?thesis
    using a s1 i1 i2 c1 c2 m by simp
qed

text \<open>
  C3 as stated fails: after an announcement of one item and a list-clear the expected
  count is 1, not 0; after the completed upload of the one item both counters are 1,
  not 0; and a further item with sequence number 1 is then accepted, which leaves the
  awaited sequence number 2 above the expected count 1.
\<close>

theorem counters_not_reset_counterexample:
  "incomingMissionWpCount (run_frames example_env
      [(False, example_frame (MISSION_COUNT (example_count 1))),
       (False, example_frame (MISSION_CLEAR_ALL example_clear_all))] example_init) = 1
   \<and> incomingMissionWpCount (run_frames example_env
      [(False, example_frame (MISSION_COUNT (example_count 1))),
       (False, example_frame (MISSION_ITEM
          (example_item 0 MAV_FRAME_GLOBAL_RELATIVE_ALT MAV_CMD_NAV_WAYPOINT)))] example_init) = 1
   \<and> incomingMissionWpSequence (run_frames example_env
      [(False, example_frame (MISSION_COUNT (example_count 1))),
       (False, example_frame (MISSION_ITEM
          (example_item 0 MAV_FRAME_GLOBAL_RELATIVE_ALT MAV_CMD_NAV_WAYPOINT)))] example_init) = 1
   \<and> sent (run_frames example_env
      [(False, example_frame (MISSION_COUNT (example_count 1))),
       (False, example_frame (MISSION_ITEM
          (example_item 0 MAV_FRAME_GLOBAL_RELATIVE_ALT MAV_CMD_NAV_WAYPOINT)))] example_init)
      = [SEND_MISSION_REQUEST 255 0 0, SEND_MISSION_ACK 255 0 MAV_MISSION_ACCEPTED]
   \<and> incomingMissionWpSequence (run_frames example_env
      [(False, example_frame (MISSION_COUNT (example_count 1))),
       (False, example_frame (MISSION_ITEM
          (example_item 0 MAV_FRAME_GLOBAL_RELATIVE_ALT MAV_CMD_NAV_WAYPOINT))),
       (False, example_frame (MISSION_ITEM
          (example_item 1 MAV_FRAME_GLOBAL_RELATIVE_ALT MAV_CMD_NAV_WAYPOINT)))] example_init) = 2
   \<and> incomingMissionWpCount (run_frames example_env
      [(False, example_frame (MISSION_COUNT (example_count 1))),
       (False, example_frame (MISSION_ITEM
          (example_item 0 MAV_FRAME_GLOBAL_RELATIVE_ALT MAV_CMD_NAV_WAYPOINT))),
       (False, example_frame (MISSION_ITEM
          (example_item 1 MAV_FRAME_GLOBAL_RELATIVE_ALT MAV_CMD_NAV_WAYPOINT)))] example_init) = 1"
  by (simp add: run_frames_def receive_frame_def msgid_switch_def example_defs
        example_count_def example_frame_def handler_defs
        const_defs setWaypoint_def Let_def)

end
